theory Spec2Isabelle
  imports Complex_Main "HOL-Library.AList" "HOL-Library.Multiset"
begin

section \<open>Python values, dictionaries and exceptions\<close>

text \<open>
  The setters (\<^verbatim>\<open>src/vasp/setters.py\<close>) and the writers (\<^verbatim>\<open>src/vasp/writers.py\<close>) work
  on dynamically typed Python values. The universe below holds the values the two files
  handle: \<^verbatim>\<open>None\<close>, booleans, integers, floats, strings, lists (tuples are read as lists)
  and dictionaries with string keys. A float \<open>VFloat q s\<close> is carried with its numeric
  value \<open>q\<close> and with the text \<open>s\<close> that \<^verbatim>\<open>str\<close> prints for it: the code compares floats
  and prints them, but how Python finds the digits is not modelled; infinities and NaN
  are left out. Strings are ASCII; a character above 127 is outside the model.
\<close>

datatype val =
    VNone
  | VBool bool
  | VInt int
  | VFloat rat string
  | VStr string
  | VList "val list"
  | VDict "(string \<times> val) list"

text \<open>A Python dictionary keeps its keys in insertion order: an association list.\<close>

type_synonym pydict = "(string \<times> val) list"

text \<open>The exceptions the two files can raise; \<open>PlainException\<close> is \<^verbatim>\<open>raise Exception(...)\<close>.\<close>

datatype error = KeyError | TypeError | ValueError | AttributeError | IndexError | PlainException

text \<open>\<^verbatim>\<open>key in d\<close>, \<^verbatim>\<open>d.get(key)\<close> (default \<^verbatim>\<open>None\<close>), \<^verbatim>\<open>d[key]\<close> and \<^verbatim>\<open>d.update(e)\<close>.
  \<^verbatim>\<open>d[key] = v\<close> is \<^const>\<open>AList.update\<close>: the value is replaced in place when the key is
  there and appended otherwise.\<close>

definition has_key :: "pydict \<Rightarrow> string \<Rightarrow> bool" where
  "has_key d k = (map_of d k \<noteq> None)"

definition dict_get :: "pydict \<Rightarrow> string \<Rightarrow> val" where
  "dict_get d k = (case map_of d k of None \<Rightarrow> VNone | Some v \<Rightarrow> v)"

definition dict_index :: "pydict \<Rightarrow> string \<Rightarrow> error + val" where
  "dict_index d k = (case map_of d k of None \<Rightarrow> Inl KeyError | Some v \<Rightarrow> Inr v)"

definition dict_update :: "pydict \<Rightarrow> pydict \<Rightarrow> pydict" where
  "dict_update d e = fold (\<lambda>kv acc. AList.update (fst kv) (snd kv) acc) e d"

text \<open>Truth value of a value (\<^verbatim>\<open>if x:\<close>).\<close>

fun truthy :: "val \<Rightarrow> bool" where
  "truthy VNone = False"
| "truthy (VBool b) = b"
| "truthy (VInt i) = (i \<noteq> 0)"
| "truthy (VFloat q s) = (q \<noteq> 0)"
| "truthy (VStr s) = (s \<noteq> [])"
| "truthy (VList xs) = (xs \<noteq> [])"
| "truthy (VDict d) = (d \<noteq> [])"

text \<open>\<^verbatim>\<open>x == n\<close> for an integer literal \<open>n\<close>: \<^verbatim>\<open>True == 1\<close>, \<^verbatim>\<open>False == 0\<close> and
  \<^verbatim>\<open>1.0 == 1\<close> hold in Python; a string, a list, a dictionary or \<^verbatim>\<open>None\<close> is never equal
  to an integer.\<close>

fun py_eq_int :: "val \<Rightarrow> int \<Rightarrow> bool" where
  "py_eq_int (VInt i) n = (i = n)"
| "py_eq_int (VBool b) n = ((if b then 1 else 0) = n)"
| "py_eq_int (VFloat q s) n = (q = of_int n)"
| "py_eq_int VNone n = False"
| "py_eq_int (VStr s) n = False"
| "py_eq_int (VList xs) n = False"
| "py_eq_int (VDict d) n = False"

text \<open>\<^verbatim>\<open>x > 0\<close>: defined on numbers (a boolean is a number), a \<^verbatim>\<open>TypeError\<close> otherwise.\<close>

fun py_gt_zero :: "val \<Rightarrow> error + bool" where
  "py_gt_zero (VInt i) = Inr (0 < i)"
| "py_gt_zero (VBool b) = Inr b"
| "py_gt_zero (VFloat q s) = Inr (0 < q)"
| "py_gt_zero VNone = Inl TypeError"
| "py_gt_zero (VStr s) = Inl TypeError"
| "py_gt_zero (VList xs) = Inl TypeError"
| "py_gt_zero (VDict d) = Inl TypeError"

text \<open>\<^verbatim>\<open>len(x)\<close> and iteration over \<open>x\<close> (a dictionary yields its keys, a string its
  characters).\<close>

fun py_len :: "val \<Rightarrow> error + nat" where
  "py_len (VStr s) = Inr (length s)"
| "py_len (VList xs) = Inr (length xs)"
| "py_len (VDict d) = Inr (length d)"
| "py_len VNone = Inl TypeError"
| "py_len (VBool b) = Inl TypeError"
| "py_len (VInt i) = Inl TypeError"
| "py_len (VFloat q s) = Inl TypeError"

fun py_iter :: "val \<Rightarrow> error + val list" where
  "py_iter (VStr s) = Inr (map (\<lambda>c. VStr [c]) s)"
| "py_iter (VList xs) = Inr xs"
| "py_iter (VDict d) = Inr (map (\<lambda>kv. VStr (fst kv)) d)"
| "py_iter VNone = Inl TypeError"
| "py_iter (VBool b) = Inl TypeError"
| "py_iter (VInt i) = Inl TypeError"
| "py_iter (VFloat q s) = Inl TypeError"

text \<open>Indexing a list or a string with an integer: negative indices count from the end.\<close>

definition seq_index :: "'a list \<Rightarrow> int \<Rightarrow> error + 'a" where
  "seq_index xs i =
     (if 0 \<le> i \<and> i < int (length xs) then Inr (xs ! nat i)
      else if i < 0 \<and> - int (length xs) \<le> i then Inr (xs ! nat (int (length xs) + i))
      else Inl IndexError)"

text \<open>\<^verbatim>\<open>x[k]\<close>: a dictionary is looked up by a string key (its keys are strings, so any
  other key is missing); a list or a string is indexed by an integer or a boolean;
  everything else is a \<^verbatim>\<open>TypeError\<close>.\<close>

fun py_getitem :: "val \<Rightarrow> val \<Rightarrow> error + val" where
  "py_getitem (VDict d) (VStr k) = dict_index d k"
| "py_getitem (VDict d) (VList ks) = Inl TypeError"
| "py_getitem (VDict d) (VDict ks) = Inl TypeError"
| "py_getitem (VDict d) k = Inl KeyError"
| "py_getitem (VList xs) (VInt i) = seq_index xs i"
| "py_getitem (VList xs) (VBool b) = seq_index xs (if b then 1 else 0)"
| "py_getitem (VList xs) k = Inl TypeError"
| "py_getitem (VStr s) (VInt i) = map_sum id (\<lambda>c. VStr [c]) (seq_index s i)"
| "py_getitem (VStr s) (VBool b) = map_sum id (\<lambda>c. VStr [c]) (seq_index s (if b then 1 else 0))"
| "py_getitem (VStr s) k = Inl TypeError"
| "py_getitem x k = Inl TypeError"

subsection \<open>Text of a value\<close>

text \<open>\<^verbatim>\<open>str.lower()\<close> and \<^verbatim>\<open>str.upper()\<close> on ASCII.\<close>

definition lower_char :: "char \<Rightarrow> char" where
  "lower_char c = (let n = (of_char c :: nat) in if 65 \<le> n \<and> n \<le> 90 then char_of (n + 32) else c)"

definition upper_char :: "char \<Rightarrow> char" where
  "upper_char c = (let n = (of_char c :: nat) in if 97 \<le> n \<and> n \<le> 122 then char_of (n - 32) else c)"

definition lower :: "string \<Rightarrow> string" where
  "lower s = map lower_char s"

definition upper :: "string \<Rightarrow> string" where
  "upper s = map upper_char s"

text \<open>\<^verbatim>\<open>sep.join(parts)\<close>.\<close>

fun join :: "string \<Rightarrow> string list \<Rightarrow> string" where
  "join sep [] = []"
| "join sep [x] = x"
| "join sep (x # y # ys) = x @ sep @ join sep (y # ys)"

text \<open>\<^verbatim>\<open>str(i)\<close> of an integer: its decimal digits, with a minus sign when negative.\<close>

fun digits :: "nat \<Rightarrow> string" where
  "digits n = (if n < 10 then [''0123456789'' ! n]
               else digits (n div 10) @ [''0123456789'' ! (n mod 10)])"

definition str_int :: "int \<Rightarrow> string" where
  "str_int i = (if i < 0 then CHR ''-'' # digits (nat (- i)) else digits (nat i))"

text \<open>\<^verbatim>\<open>repr(s)\<close> of a string: single quotes, unless the string holds a single quote and
  no double quote; the backslash, the chosen quote, newline, carriage return and tab
  are escaped, and every other character outside the printable ASCII range is written
  \<^verbatim>\<open>\xhh\<close>.\<close>

definition hex2 :: "nat \<Rightarrow> string" where
  "hex2 n = [''0123456789abcdef'' ! (n div 16 mod 16), ''0123456789abcdef'' ! (n mod 16)]"

definition repr_char :: "char \<Rightarrow> char \<Rightarrow> string" where
  "repr_char q c =
     (if c = CHR 0x5C then [CHR 0x5C, CHR 0x5C]
      else if c = q then [CHR 0x5C, q]
      else if c = CHR 0x0A then [CHR 0x5C, CHR ''n'']
      else if c = CHR 0x0D then [CHR 0x5C, CHR ''r'']
      else if c = CHR 0x09 then [CHR 0x5C, CHR ''t'']
      else if (of_char c :: nat) < 32 \<or> 127 \<le> (of_char c :: nat)
        then [CHR 0x5C, CHR ''x''] @ hex2 (of_char c)
      else [c])"

definition repr_str :: "string \<Rightarrow> string" where
  "repr_str s =
     (let q = (if CHR 0x27 \<in> set s \<and> CHR 0x22 \<notin> set s
               then CHR 0x22 else CHR 0x27)
      in [q] @ concat (map (repr_char q) s) @ [q])"

text \<open>\<^verbatim>\<open>repr(x)\<close> and \<^verbatim>\<open>str(x)\<close>: they differ on strings only.\<close>

fun py_repr :: "val \<Rightarrow> string" where
  "py_repr VNone = ''None''"
| "py_repr (VBool b) = (if b then ''True'' else ''False'')"
| "py_repr (VInt i) = str_int i"
| "py_repr (VFloat q s) = s"
| "py_repr (VStr s) = repr_str s"
| "py_repr (VList xs) = ''['' @ join '', '' (map py_repr xs) @ '']''"
| "py_repr (VDict d) =
     ''{'' @ join '', '' (map (\<lambda>kv. repr_str (fst kv) @ '': '' @ py_repr (snd kv)) d) @ ''}''"

fun py_str :: "val \<Rightarrow> string" where
  "py_str (VStr s) = s"
| "py_str v = py_repr v"

section \<open>The calculator\<close>

text \<open>
  The attributes of the \<^verbatim>\<open>Vasp\<close> object that the setters and writers read or write.
  An atom carries its chemical symbol and its magnetic moment. An entry of
  \<^verbatim>\<open>ppp_list\<close> is a triple whose first component is a species symbol (a string) or an
  atom index (an integer). \<open>ppp_list = None\<close> says that the attribute is not set yet
  (\<^verbatim>\<open>hasattr(self, 'ppp_list')\<close> is false).
\<close>

record atom =
  symbol :: string
  magmom :: val

type_synonym ppp_entry = "val \<times> string \<times> int"

record calc =
  parameters :: pydict
  special_kwargs :: "string list"
  atoms :: "atom list"
  resort :: "int list"
  ppp_list :: "ppp_entry list option"
  species_order :: "ppp_entry list"
  results :: pydict
  calc_dir :: string

text \<open>The class attribute \<^verbatim>\<open>Vasp.xc_defaults\<close> is defined in \<^verbatim>\<open>vasp.py\<close>, which is not among
  the sources: the table is a parameter of everything that reads it. It maps a
  lower-case method name to the dictionary of the parameters the method implies.\<close>

type_synonym xc_table = "string \<Rightarrow> pydict option"

text \<open>Modelled from the spec: \<^verbatim>\<open>sort_atoms\<close> of \<^verbatim>\<open>vasp.py\<close> is not among the sources. The
  spec says of the species order that it is "computed once per structure by an external
  collaborator (structure sorter) and treated as read-only by this core": the call
  sets \<^verbatim>\<open>ppp_list\<close> to the order the sorter yields, which the field \<open>species_order\<close>
  stands for.\<close>

definition sort_atoms :: "calc \<Rightarrow> calc" where
  "sort_atoms c = c\<lparr>ppp_list := Some (species_order c)\<rparr>"

text \<open>Modelled from the spec: \<^verbatim>\<open>reset\<close> is not among the sources. The spec calls it the
  invalidation of "all cached derived state": the results are dropped.\<close>

definition reset :: "calc \<Rightarrow> calc" where
  "reset c = c\<lparr>results := []\<rparr>"

text \<open>Running a function over a list until the first exception.\<close>

fun map_err :: "('a \<Rightarrow> error + 'b) \<Rightarrow> 'a list \<Rightarrow> error + 'b list" where
  "map_err f [] = Inr []"
| "map_err f (x # xs) =
     (case f x of
        Inl e \<Rightarrow> Inl e
      | Inr y \<Rightarrow> (case map_err f xs of Inl e \<Rightarrow> Inl e | Inr ys \<Rightarrow> Inr (y # ys)))"

section \<open>The setters (\<^verbatim>\<open>setters.py\<close>)\<close>

subsection \<open>\<^verbatim>\<open>set_ispin_dict\<close>\<close>

text \<open>\<^verbatim>\<open>[atom.magmom for atom in self.atoms[self.resort]]\<close>: the atoms picked by the indices
  of \<^verbatim>\<open>resort\<close>, an \<^verbatim>\<open>IndexError\<close> when an index is out of range.\<close>

definition resorted_magmoms :: "calc \<Rightarrow> error + val list" where
  "resorted_magmoms c = map_err (\<lambda>i. map_sum id magmom (seq_index (atoms c) i)) (resort c)"

text \<open>The function returns a dictionary in three branches and falls off its end in
  every other case: the result is then Python's \<^verbatim>\<open>None\<close>, here \<open>Inr None\<close>.\<close>

definition set_ispin_dict :: "calc \<Rightarrow> val \<Rightarrow> error + pydict option" where
  "set_ispin_dict c v =
     (let p = parameters c in
      if v = VNone then
        Inr (Some (fold (\<lambda>key d. if has_key p key then AList.update key VNone d else d)
                     [''ispin'', ''magmom'', ''lorbit''] []))
      else if py_eq_int v 1 then
        (let d = [(''ispin'', VInt 1)];
             d = (if has_key p ''magmom'' then AList.update ''magmom'' VNone d else d);
             d = (if has_key p ''lorbit'' then AList.update ''lorbit'' VNone d else d)
         in Inr (Some d))
      else if py_eq_int v 2 then
        (let d = [(''ispin'', VInt 2)] in
         case (if \<not> has_key p ''magmom''
               then map_sum id (\<lambda>ms. AList.update ''magmom'' (VList ms) d) (resorted_magmoms c)
               else Inr d) of
           Inl e \<Rightarrow> Inl e
         | Inr d \<Rightarrow>
             Inr (Some (if \<not> has_key p ''lorbit'' then AList.update ''lorbit'' (VInt 11) d else d)))
      else Inr None)"

subsection \<open>\<^verbatim>\<open>set_ldau_luj_dict\<close>\<close>

text \<open>\<^verbatim>\<open>x[0] if isinstance(x[0], str) else self.atoms[x[0]].symbol\<close> for an entry \<open>x\<close> of
  \<^verbatim>\<open>ppp_list\<close>.\<close>

fun atom_type :: "calc \<Rightarrow> ppp_entry \<Rightarrow> error + string" where
  "atom_type c (VStr s, pfile, n) = Inr s"
| "atom_type c (VInt i, pfile, n) = map_sum id symbol (seq_index (atoms c) i)"
| "atom_type c (VBool b, pfile, n) = map_sum id symbol (seq_index (atoms c) (if b then 1 else 0))"
| "atom_type c (x, pfile, n) = Inl TypeError"

text \<open>\<^verbatim>\<open>[val[sym][field] for sym in atom_types]\<close>.\<close>

definition luj_column :: "val \<Rightarrow> string \<Rightarrow> string list \<Rightarrow> error + val list" where
  "luj_column v field syms =
     map_err (\<lambda>sym. case py_getitem v (VStr sym) of
                       Inl e \<Rightarrow> Inl e
                     | Inr entry \<Rightarrow> py_getitem entry (VStr field)) syms"

text \<open>The branch \<^verbatim>\<open>if val is not None\<close>: the atom types along \<^verbatim>\<open>ppp_list\<close>, then the three
  lists, each evaluated in full before the next.\<close>

definition luj_dict :: "calc \<Rightarrow> val \<Rightarrow> error + pydict" where
  "luj_dict c v =
     (case map_err (atom_type c) (case ppp_list c of None \<Rightarrow> [] | Some l \<Rightarrow> l) of
        Inl e \<Rightarrow> Inl e
      | Inr atom_types \<Rightarrow>
         (case luj_column v ''L'' atom_types of
            Inl e \<Rightarrow> Inl e
          | Inr ls \<Rightarrow>
             (case luj_column v ''U'' atom_types of
                Inl e \<Rightarrow> Inl e
              | Inr us \<Rightarrow>
                 (case luj_column v ''J'' atom_types of
                    Inl e \<Rightarrow> Inl e
                  | Inr js \<Rightarrow>
                     Inr [(''ldaul'', VList ls), (''ldauu'', VList us), (''ldauj'', VList js)]))))"

text \<open>The setter may compute the species order on the way, so it returns the
  calculator too.\<close>

definition set_ldau_luj_dict :: "calc \<Rightarrow> val \<Rightarrow> (error + pydict) \<times> calc" where
  "set_ldau_luj_dict c v =
     (if has_key (parameters c) ''setups'' then (Inl PlainException, c)
      else
        let c1 = (if ppp_list c = None then sort_atoms c else c) in
        if v \<noteq> VNone then (luj_dict c1 v, c1)
        else (Inr [(''ldaul'', VNone), (''ldauu'', VNone), (''ldauj'', VNone)], c1))"

subsection \<open>\<^verbatim>\<open>set_nsw_dict\<close>\<close>

definition set_nsw_dict :: "calc \<Rightarrow> val \<Rightarrow> error + pydict" where
  "set_nsw_dict c v =
     (let d = [(''nsw'', v)] in
      case py_gt_zero v of
        Inl e \<Rightarrow> Inl e
      | Inr pos \<Rightarrow>
          if pos then Inr (AList.update ''lwave'' (VBool True) d)
          else if py_eq_int v 0 then Inr (AList.update ''lwave'' (VBool False) d)
          else Inr (AList.update ''lwave'' (VBool False) d))"

subsection \<open>\<^verbatim>\<open>set_xc_dict\<close>\<close>

text \<open>\<^verbatim>\<open>vasp.Vasp.xc_defaults[x.lower()]\<close>: an \<^verbatim>\<open>AttributeError\<close> when \<open>x\<close> is no string, a
  \<^verbatim>\<open>KeyError\<close> when the table has no such method.\<close>

definition xc_lookup :: "xc_table \<Rightarrow> val \<Rightarrow> error + pydict" where
  "xc_lookup T x =
     (case x of
        VStr s \<Rightarrow> (case T (lower s) of None \<Rightarrow> Inl KeyError | Some e \<Rightarrow> Inr e)
      | _ \<Rightarrow> Inl AttributeError)"

definition set_xc_dict :: "xc_table \<Rightarrow> calc \<Rightarrow> val \<Rightarrow> error + pydict" where
  "set_xc_dict T c v =
     (let d = [(''xc'', v)];
          oxc = dict_get (parameters c) ''xc'' in
      case (if truthy oxc
            then map_sum id
                   (\<lambda>old_defaults.
                      fold (\<lambda>key d. if has_key (parameters c) key then AList.update key VNone d else d)
                        (map fst old_defaults) d)
                   (xc_lookup T oxc)
            else Inr d) of
        Inl e \<Rightarrow> Inl e
      | Inr d \<Rightarrow> map_sum id (dict_update d) (xc_lookup T v))"

subsection \<open>\<^verbatim>\<open>set\<close>\<close>

text \<open>Modelled from the spec: \<^verbatim>\<open>FileIOCalculator.set\<close> belongs to the ASE library and is
  not among the sources. The spec (4.2) says: "apply every key in the merged map to
  ParameterStore: a removal-sentinel value deletes the key if present (no-op if absent);
  any other value overwrites/creates the key. Returns the ChangeSet (names whose final
  value differs from the pre-call value, including additions and removals, but not keys
  set to the same value they already held)". The ChangeSet is the list of the changed
  names, in the order of the merged map.\<close>

definition apply_param :: "string \<times> val \<Rightarrow> string list \<times> pydict \<Rightarrow> string list \<times> pydict" where
  "apply_param kv st =
     (let k = fst kv; v = snd kv; changed = fst st; p = snd st in
      if v = VNone then
        (if has_key p k then (changed @ [k], AList.delete k p) else (changed, p))
      else if map_of p k = Some v then (changed, p)
      else (changed @ [k], AList.update k v p))"

definition calculator_set :: "calc \<Rightarrow> pydict \<Rightarrow> string list \<times> calc" where
  "calculator_set c kwargs =
     (let st = fold apply_param kwargs ([], parameters c)
      in (fst st, c\<lparr>parameters := snd st\<rparr>))"

text \<open>\<^verbatim>\<open>set\<close> itself. It starts with four \<^verbatim>\<open>if\<close> statements, one per special keyword:
  when \<^verbatim>\<open>kwargs\<close> holds the keyword, its value is expanded against the calculator and the
  expansion is merged into \<^verbatim>\<open>kwargs\<close> (\<^verbatim>\<open>kwargs.update(...)\<close>: merging \<^verbatim>\<open>None\<close> is a
  \<^verbatim>\<open>TypeError\<close>).\<close>

definition expand_xc :: "xc_table \<Rightarrow> calc \<Rightarrow> pydict \<Rightarrow> error + pydict" where
  "expand_xc T c kwargs =
     (if has_key kwargs ''xc''
      then map_sum id (dict_update kwargs) (set_xc_dict T c (dict_get kwargs ''xc''))
      else Inr kwargs)"

definition expand_ispin :: "calc \<Rightarrow> pydict \<Rightarrow> error + pydict" where
  "expand_ispin c kwargs =
     (if has_key kwargs ''ispin''
      then (case set_ispin_dict c (dict_get kwargs ''ispin'') of
              Inl e \<Rightarrow> Inl e
            | Inr None \<Rightarrow> Inl TypeError
            | Inr (Some d) \<Rightarrow> Inr (dict_update kwargs d))
      else Inr kwargs)"

definition expand_ldau_luj :: "calc \<Rightarrow> pydict \<Rightarrow> (error + pydict) \<times> calc" where
  "expand_ldau_luj c kwargs =
     (if has_key kwargs ''ldau_luj''
      then (case set_ldau_luj_dict c (dict_get kwargs ''ldau_luj'') of
              (Inl e, c1) \<Rightarrow> (Inl e, c1)
            | (Inr d, c1) \<Rightarrow> (Inr (dict_update kwargs d), c1))
      else (Inr kwargs, c))"

definition expand_nsw :: "calc \<Rightarrow> pydict \<Rightarrow> error + pydict" where
  "expand_nsw c kwargs =
     (if has_key kwargs ''nsw''
      then map_sum id (dict_update kwargs) (set_nsw_dict c (dict_get kwargs ''nsw''))
      else Inr kwargs)"

text \<open>The four statements in the order of the source. An exception ends the call with
  the calculator as it is at that moment.\<close>

definition expand_kwargs :: "xc_table \<Rightarrow> calc \<Rightarrow> pydict \<Rightarrow> (error + pydict) \<times> calc" where
  "expand_kwargs T c kwargs =
     (case expand_xc T c kwargs of
        Inl e \<Rightarrow> (Inl e, c)
      | Inr kw1 \<Rightarrow>
     (case expand_ispin c kw1 of
        Inl e \<Rightarrow> (Inl e, c)
      | Inr kw2 \<Rightarrow>
     (case expand_ldau_luj c kw2 of
        (Inl e, c1) \<Rightarrow> (Inl e, c1)
      | (Inr kw3, c1) \<Rightarrow>
     (case expand_nsw c1 kw3 of
        Inl e \<Rightarrow> (Inl e, c1)
      | Inr kw4 \<Rightarrow> (Inr kw4, c1)))))"

text \<open>Then the call of \<^verbatim>\<open>FileIOCalculator.set\<close> with the merged \<^verbatim>\<open>kwargs\<close>, and \<^verbatim>\<open>reset\<close>
  when something changed. The result is the ChangeSet and the calculator after the call.\<close>

definition set_calc :: "xc_table \<Rightarrow> calc \<Rightarrow> pydict \<Rightarrow> (error + string list) \<times> calc" where
  "set_calc T c kwargs =
     (case expand_kwargs T c kwargs of
        (Inl e, c1) \<Rightarrow> (Inl e, c1)
      | (Inr kw, c1) \<Rightarrow>
          (let r = calculator_set c1 kw
           in (Inr (fst r), if fst r \<noteq> [] then reset (snd r) else snd r)))"

section \<open>The writers (\<^verbatim>\<open>writers.py\<close>)\<close>

text \<open>The file system is a map from paths to contents. \<^verbatim>\<open>open(fname, 'w')\<close> replaces
  the file; what was written before an exception stays in it (the \<^verbatim>\<open>with\<close> block closes
  the file). A writer returns the file system after the call and the exception, if any.\<close>

type_synonym files = "string \<Rightarrow> string option"

text \<open>\<^verbatim>\<open>os.path.join(dir, name)\<close> for a relative \<open>name\<close>.\<close>

definition os_path_join :: "string \<Rightarrow> string \<Rightarrow> string" where
  "os_path_join dir name =
     (if dir = [] \<or> last dir = CHR ''/'' then dir @ name else dir @ ''/'' @ name)"

subsection \<open>\<^verbatim>\<open>write_incar\<close>\<close>

text \<open>\<^verbatim>\<open>set(self.parameters) - set(self.special_kwargs)\<close>: the keys of the store that are
  not special.\<close>

definition nonspecial_keys :: "calc \<Rightarrow> string list" where
  "nonspecial_keys c =
     filter (\<lambda>k. k \<notin> set (special_kwargs c)) (remdups (map fst (parameters c)))"

text \<open>\<^verbatim>\<open>list(...)\<close> of that set lists its elements in the iteration order of a Python
  set. That order follows the hash values of the strings, not the order of insertion; it
  is the parameter \<open>hord\<close>, which rearranges the keys. An enumeration of a set lists each
  element once:\<close>

definition enumerates :: "(string list \<Rightarrow> string list) \<Rightarrow> string list \<Rightarrow> bool" where
  "enumerates hord ks = (set (hord ks) = set ks \<and> distinct (hord ks))"

definition incar_keys :: "(string list \<Rightarrow> string list) \<Rightarrow> calc \<Rightarrow> string list" where
  "incar_keys hord c = hord (nonspecial_keys c)"

text \<open>\<^verbatim>\<open>d = {key: self.parameters[key] for key in incar_keys}\<close>; the keys are distinct, so
  the dictionary has one item per key, in the order of \<^verbatim>\<open>incar_keys\<close>.\<close>

definition incar_dict :: "(string list \<Rightarrow> string list) \<Rightarrow> calc \<Rightarrow> error + pydict" where
  "incar_dict hord c =
     map_err (\<lambda>k. map_sum id (\<lambda>v. (k, v)) (dict_index (parameters c) k)) (incar_keys hord c)"

text \<open>One round of the loop: nothing for \<^verbatim>\<open>None\<close> (\<^verbatim>\<open>continue\<close>), else the line written.\<close>

definition incar_line :: "calc \<Rightarrow> string \<Rightarrow> val \<Rightarrow> error + string option" where
  "incar_line c key0 v =
     (let key = '' '' @ upper key0 in
      if v = VNone then Inr None
      else if key = '' RWIGS'' then
        (case ppp_list c of
           None \<Rightarrow> Inl AttributeError
         | Some l \<Rightarrow>
             map_sum id (\<lambda>parts. Some (key @ '' = '' @ join '' '' (map py_str parts) @ ''\<newline>''))
               (map_err (\<lambda>x. py_getitem v (fst x)) l))
      else
        (case v of
           VBool b \<Rightarrow> Inr (Some (key @ '' = '' @ (if b then ''.TRUE.'' else ''.FALSE.'') @ ''\<newline>''))
         | VStr s \<Rightarrow> Inr (Some (key @ '' = '' @ s @ ''\<newline>''))
         | VList xs \<Rightarrow> Inr (Some (key @ '' = '' @ join '' '' (map py_str xs) @ ''\<newline>''))
         | VDict d \<Rightarrow> Inr (Some (key @ '' = '' @ join '' '' (map fst d) @ ''\<newline>''))
         | _ \<Rightarrow> Inr (Some (key @ '' = '' @ py_str v @ ''\<newline>''))))"

fun incar_lines :: "calc \<Rightarrow> pydict \<Rightarrow> string list \<times> error option" where
  "incar_lines c [] = ([], None)"
| "incar_lines c (kv # rest) =
     (case incar_line c (fst kv) (snd kv) of
        Inl e \<Rightarrow> ([], Some e)
      | Inr None \<Rightarrow> incar_lines c rest
      | Inr (Some l) \<Rightarrow> (let r = incar_lines c rest in (l # fst r, snd r)))"

definition write_incar ::
    "(string list \<Rightarrow> string list) \<Rightarrow> string option \<Rightarrow> calc \<Rightarrow> files \<Rightarrow> files \<times> error option" where
  "write_incar hord incar c fs =
     (let incar = (case incar of None \<Rightarrow> os_path_join (calc_dir c) ''INCAR'' | Some f \<Rightarrow> f) in
      case incar_dict hord c of
        Inl e \<Rightarrow> (fs, Some e)
      | Inr d \<Rightarrow>
          (let r = incar_lines c d
           in (fs(incar \<mapsto> concat (''INCAR created by Atomic Simulation Environment\<newline>'' # fst r)),
               snd r)))"

subsection \<open>\<^verbatim>\<open>write_kpoints\<close>\<close>

text \<open>\<^verbatim>\<open>np.array(x).shape\<close>: a scalar (a string and a dictionary too) has the empty shape,
  a list whose elements all have the shape \<open>sh\<close> has the shape \<open>length # sh\<close>, the empty
  list has the shape \<open>[0]\<close>. A ragged list has no shape: numpy (1.24 and later) raises a
  \<^verbatim>\<open>ValueError\<close>.\<close>

fun np_shape :: "val \<Rightarrow> nat list option" where
  "np_shape (VList xs) =
     (let shs = map np_shape xs in
      case shs of
        [] \<Rightarrow> Some [0]
      | s # _ \<Rightarrow>
          (case s of
             None \<Rightarrow> None
           | Some sh \<Rightarrow> if list_all (\<lambda>t. t = Some sh) shs then Some (length xs # sh) else None))"
| "np_shape v = Some []"

text \<open>The number \<^verbatim>\<open>NKPTS\<close> (\<^verbatim>\<open>None\<close>, 0 or the length of \<^verbatim>\<open>kpts\<close>) and the mode letter.
  The mode \<^verbatim>\<open>'k'\<close> is never assigned.\<close>

datatype kmode = ModeG | ModeM | ModeL | ModeR | ModeC

definition count_kpts :: "pydict \<Rightarrow> error + int option" where
  "count_kpts p =
     (let kpts = dict_get p ''kpts'' in
      if kpts = VNone then Inr None
      else
        (case np_shape kpts of
           None \<Rightarrow> Inl ValueError
         | Some sh \<Rightarrow>
             if length sh = 1 then Inr (Some 0)
             else (case dict_index p ''kpts'' of
                     Inl e \<Rightarrow> Inl e
                   | Inr k \<Rightarrow> map_sum id (\<lambda>n. Some (int n)) (py_len k))))"

definition kpoints_mode :: "pydict \<Rightarrow> int option \<Rightarrow> kmode" where
  "kpoints_mode p nkpts =
     (if nkpts = Some 0 then (if truthy (dict_get p ''gamma'') then ModeG else ModeM)
      else if dict_get p ''kpts_nintersections'' \<noteq> VNone then ModeL
      else if py_eq_int (dict_get p ''reciprocal'') 1 then ModeR
      else ModeC)"

text \<open>\<^verbatim>\<open>any(len(point) != 4 for point in points)\<close>.\<close>

fun any_len_not4 :: "val list \<Rightarrow> error + bool" where
  "any_len_not4 [] = Inr False"
| "any_len_not4 (pt # pts) =
     (case py_len pt of
        Inl e \<Rightarrow> Inl e
      | Inr n \<Rightarrow> if n \<noteq> 4 then Inr True else any_len_not4 pts)"

text \<open>The list \<^verbatim>\<open>points\<close>, with what the line mode writes while building it.\<close>

definition kpoints_points :: "pydict \<Rightarrow> kmode \<Rightarrow> string list \<times> (error + val list)" where
  "kpoints_points p m =
     (if m = ModeM \<or> m = ModeG then
        (let points = [case map_of p ''kpts'' of
                         None \<Rightarrow> VList [VInt 1, VInt 1, VInt 1] | Some k \<Rightarrow> k]
         in if truthy (dict_get p ''gamma'')
            then ([], map_sum id (\<lambda>g. points @ [g]) (dict_index p ''gamma''))
            else ([], Inr (points @ [VList [VStr ''0.0'', VStr ''0.0'', VStr ''0.0'']])))
      else if m = ModeC \<or> m = ModeR then
        (case dict_index p ''kpts'' of
           Inl e \<Rightarrow> ([], Inl e)
         | Inr k \<Rightarrow>
             (let points = [k] in
              case any_len_not4 points of
                Inl e \<Rightarrow> ([], Inl e)
              | Inr bad \<Rightarrow> if bad then ([], Inl ValueError) else ([], Inr points)))
      else
        ([if truthy (dict_get p ''reciprocal'') then ''Reciprocal\<newline>'' else ''Cartesian\<newline>''],
         map_sum id (\<lambda>k. [k]) (dict_index p ''kpts'')))"

text \<open>The final loop: one line per element of \<^verbatim>\<open>points\<close>.\<close>

fun write_points :: "val list \<Rightarrow> string list \<times> error option" where
  "write_points [] = ([], None)"
| "write_points (pt # pts) =
     (case py_iter pt of
        Inl e \<Rightarrow> ([], Some e)
      | Inr xs \<Rightarrow>
          (let r = write_points pts
           in ((join '' '' (map py_str xs) @ ''\<newline>'') # fst r, snd r)))"

text \<open>Everything inside the \<^verbatim>\<open>with open(fname, 'w')\<close> block.\<close>

definition kpoints_text :: "pydict \<Rightarrow> int option \<Rightarrow> kmode \<Rightarrow> string list \<times> error option" where
  "kpoints_text p nkpts m =
     (let line1 = ''KPOINTS created by Atomic Simulation Environment\<newline>'';
          line2 = (if m = ModeL then py_str (dict_get p ''kpts_nintersections'') @ ''\<newline>''
                   else (case nkpts of None \<Rightarrow> ''None'' | Some n \<Rightarrow> str_int n) @ ''\<newline>'');
          line3 = (if m = ModeM then ''Monkhorst-Pack\<newline>''
                   else if m = ModeG then ''Gamma\<newline>''
                   else if m = ModeC then ''Cartesian\<newline>''
                   else if m = ModeL then ''Line-mode\<newline>''
                   else ''Reciprocal\<newline>'');
          pts = kpoints_points p m
      in case snd pts of
           Inl e \<Rightarrow> ([line1, line2, line3] @ fst pts, Some e)
         | Inr points \<Rightarrow>
             (let r = write_points points
              in ([line1, line2, line3] @ fst pts @ fst r, snd r)))"

definition write_kpoints :: "string option \<Rightarrow> calc \<Rightarrow> files \<Rightarrow> files \<times> error option" where
  "write_kpoints fname c fs =
     (let fname = (case fname of None \<Rightarrow> os_path_join (calc_dir c) ''KPOINTS'' | Some f \<Rightarrow> f);
          p = parameters c in
      case count_kpts p of
        Inl e \<Rightarrow> (fs, Some e)
      | Inr nkpts \<Rightarrow>
          (let r = kpoints_text p nkpts (kpoints_mode p nkpts)
           in (fs(fname \<mapsto> concat (fst r)), snd r)))"

section \<open>Example data\<close>

text \<open>A calculator that holds the given parameters and species order and nothing else,
  and the part of the defaults table of \<^verbatim>\<open>vasp.py\<close> used in the examples.\<close>

definition calc0 :: "pydict \<Rightarrow> ppp_entry list option \<Rightarrow> calc" where
  "calc0 p ppp =
     \<lparr>parameters = p, special_kwargs = [''xc'', ''pp'', ''setups'', ''kpts'', ''gamma'',
        ''kpts_nintersections'', ''reciprocal'', ''ldau_luj''],
      atoms = [], resort = [], ppp_list = ppp, species_order = [], results = [],
      calc_dir = ''run''\<rparr>"

definition xc_table0 :: xc_table where
  "xc_table0 name =
     (if name = ''lda'' then Some [(''pp'', VStr ''LDA'')]
      else if name = ''pbe'' then Some [(''pp'', VStr ''PBE'')]
      else if name = ''rpbe'' then Some [(''pp'', VStr ''LDA''), (''gga'', VStr ''RP'')]
      else None)"

section \<open>The INCAR line as the specification words it\<close>

text \<open>
  The specification gives the line of a key by the kind of its value: a boolean renders
  as \<^verbatim>\<open>.TRUE.\<close> or \<^verbatim>\<open>.FALSE.\<close>, a string verbatim, any other iterable as its elements
  joined by spaces (a dictionary iterates over its keys), any other scalar as its text.
  The line is \<^verbatim>\<open>" KEY = value"\<close> with the key in upper case. These two definitions follow
  the specification, not the code; the code's line is \<^const>\<open>incar_line\<close>.
\<close>

fun render_value :: "val \<Rightarrow> string" where
  "render_value (VBool b) = (if b then ''.TRUE.'' else ''.FALSE.'')"
| "render_value (VStr s) = s"
| "render_value (VList xs) = join '' '' (map py_str xs)"
| "render_value (VDict d) = join '' '' (map fst d)"
| "render_value v = py_str v"

definition spec_directive :: "string \<Rightarrow> val \<Rightarrow> string" where
  "spec_directive k v = '' '' @ upper k @ '' = '' @ render_value v @ ''\<newline>''"

text \<open>Two more calculators for the examples: one with ordinary INCAR parameters, one
  with sphere radii per species and a species order.\<close>

definition calc_incar :: calc where
  "calc_incar = calc0 [(''encut'', VInt 400), (''lwave'', VBool False), (''xc'', VStr ''PBE''),
                       (''magmom'', VList [VInt 1, VInt (- 1)]), (''nsw'', VNone),
                       (''prec'', VStr ''Accurate''), (''sigma'', VFloat (1 / 10) ''0.1'')] None"

definition calc_rwigs :: calc where
  "calc_rwigs = calc0 [(''rwigs'', VDict [(''Fe'', VInt 1), (''O'', VInt 2)])]
                  (Some [(VStr ''O'', ''potpaw_PBE/O/POTCAR'', 6), (VStr ''Fe'', ''potpaw_PBE/Fe/POTCAR'', 8)])"

text \<open>
  The specification gives the line of the sphere-radius key \<^verbatim>\<open>rwigs\<close> apart, as its first
  rule: the radii looked up per species, in the order of the species list, joined by
  spaces. This definition follows the specification; the species is the first component
  of an entry of the list, and a lookup that fails is the error of the line.
\<close>

definition spec_rwigs_directive :: "ppp_entry list \<Rightarrow> string \<Rightarrow> val \<Rightarrow> error + string" where
  "spec_rwigs_directive species k v =
     (case map_err (\<lambda>x. py_getitem v (fst x)) species of
        Inl e \<Rightarrow> Inl e
      | Inr radii \<Rightarrow> Inr ('' '' @ upper k @ '' = '' @ join '' '' (map py_str radii) @ ''\<newline>''))"

text \<open>The line that the loop of \<^verbatim>\<open>write_incar\<close> writes for a key of the store; empty when
  it writes none.\<close>

definition line_of :: "calc \<Rightarrow> string \<Rightarrow> string" where
  "line_of c k =
     (case incar_line c k (dict_get (parameters c) k) of Inr (Some l) \<Rightarrow> l | _ \<Rightarrow> [])"







text \<open>A calculator whose store was left by the method \<^verbatim>\<open>rpbe\<close>, and the keyword arguments
  of a call that switches the method, sets three more keywords and two plain
  parameters.\<close>

definition calc_xc :: calc where
  "calc_xc = calc0 [(''xc'', VStr ''rpbe''), (''pp'', VStr ''LDA''), (''gga'', VStr ''RP'')] None"


section \<open>Properties of \<^verbatim>\<open>write_kpoints\<close>\<close>

text \<open>
  Claim C10. When the store has no \<^verbatim>\<open>kpts\<close> key, \<^verbatim>\<open>kpts_nintersections\<close> is unset and
  \<^verbatim>\<open>reciprocal\<close> is not true, \<^verbatim>\<open>write_kpoints\<close> does not fall back to automatic
  generation: it takes the cartesian branch, writes the comment line, \<^verbatim>\<open>None\<close> as the count
  line and \<^verbatim>\<open>Cartesian\<close> as the format line, and then fails with a \<^verbatim>\<open>KeyError\<close> at
  \<^verbatim>\<open>p['kpts']\<close>; the file keeps the three lines written so far.
\<close>

theorem kpoints_without_kpts:
  assumes "\<not> has_key (parameters c) ''kpts''"
    and "dict_get (parameters c) ''kpts_nintersections'' = VNone"
    and "\<not> py_eq_int (dict_get (parameters c) ''reciprocal'') 1"
  shows "write_kpoints fname c fs =
           (fs((case fname of None \<Rightarrow> os_path_join (calc_dir c) ''KPOINTS'' | Some f \<Rightarrow> f) \<mapsto>
                 ''KPOINTS created by Atomic Simulation Environment\<newline>None\<newline>Cartesian\<newline>''),
            Some KeyError)"
  using assms
  by (simp add: write_kpoints_def count_kpts_def kpoints_mode_def kpoints_text_def
      kpoints_points_def has_key_def dict_get_def dict_index_def)

text \<open>The theorem at a store that holds a false \<^verbatim>\<open>reciprocal\<close> flag only.\<close>

theorem kpoints_without_kpts_witness:
  "\<not> has_key (parameters (calc0 [(''reciprocal'', VBool False)] None)) ''kpts''
   \<and> dict_get (parameters (calc0 [(''reciprocal'', VBool False)] None)) ''kpts_nintersections'' = VNone
   \<and> \<not> py_eq_int (dict_get (parameters (calc0 [(''reciprocal'', VBool False)] None)) ''reciprocal'') 1
   \<and> write_kpoints None (calc0 [(''reciprocal'', VBool False)] None) Map.empty =
        ([''run/KPOINTS'' \<mapsto>
            ''KPOINTS created by Atomic Simulation Environment\<newline>None\<newline>Cartesian\<newline>''],
         Some KeyError)"
proof -
  let ?c = "calc0 [(''reciprocal'', VBool False)] None"
  have h1: "\<not> has_key (parameters ?c) ''kpts''"
    by (simp add: calc0_def has_key_def)
  have h2: "dict_get (parameters ?c) ''kpts_nintersections'' = VNone"
    by (simp add: calc0_def dict_get_def)
  have h3: "\<not> py_eq_int (dict_get (parameters ?c) ''reciprocal'') 1"
    by (simp add: calc0_def dict_get_def)
  have "calc_dir ?c = ''run''" by (simp add: calc0_def)
  then show ?thesis
    using h1 h2 h3 kpoints_without_kpts [OF h1 h2 h3, of None Map.empty]
    by (simp add: os_path_join_def)
qed

text \<open>
  Claim C3. For a flat \<^verbatim>\<open>kpts\<close> the claim promises the count \<^verbatim>\<open>0\<close>, the format line
  \<^verbatim>\<open>Gamma\<close> when the \<^verbatim>\<open>gamma\<close> flag is set, the grid line and a shift line. With
  \<^verbatim>\<open>kpts=[6,6,6]\<close> and the flag \<^verbatim>\<open>gamma=True\<close> the code writes the comment line, \<^verbatim>\<open>0\<close>,
  \<^verbatim>\<open>Gamma\<close> and the grid line; then it takes the flag for the shift, \<^verbatim>\<open>map(str, True)\<close>
  raises a \<^verbatim>\<open>TypeError\<close>, and the file is left without the shift line that the docstring
  of \<^verbatim>\<open>write_kpoints\<close> lists as line 5.
\<close>

theorem kpoints_gamma_flag_raises:
  "write_kpoints None (calc0 [(''kpts'', VList [VInt 6, VInt 6, VInt 6]),
                              (''gamma'', VBool True)] None) Map.empty =
     ([''run/KPOINTS'' \<mapsto>
         ''KPOINTS created by Atomic Simulation Environment\<newline>0\<newline>Gamma\<newline>6 6 6\<newline>''],
      Some TypeError)"
  by (simp add: write_kpoints_def count_kpts_def kpoints_mode_def kpoints_text_def
      kpoints_points_def dict_get_def dict_index_def calc0_def os_path_join_def str_int_def)

text \<open>
  The defect is confined to a truthy \<^verbatim>\<open>gamma\<close> that is no sequence. For a flat \<^verbatim>\<open>kpts\<close> (a
  list \<open>ks\<close>, whatever its length) and a \<^verbatim>\<open>gamma\<close> that is absent, falsy or a sequence
  with the elements \<open>gs\<close>, the file is complete: the comment line, the count \<^verbatim>\<open>0\<close>, the
  format line, one line with the elements of \<open>ks\<close>, and the shift line, which holds
  \<open>gs\<close> when \<^verbatim>\<open>gamma\<close> is truthy and three \<^verbatim>\<open>0.0\<close> literals otherwise.
\<close>

lemma kpoints_automatic:
  assumes kpts: "map_of (parameters c) ''kpts'' = Some (VList ks)"
    and flat: "np_shape (VList ks) = Some [n]"
    and shift: "\<not> truthy (dict_get (parameters c) ''gamma'')
                \<or> py_iter (dict_get (parameters c) ''gamma'') = Inr gs"
  shows "write_kpoints fname c fs =
           (fs((case fname of None \<Rightarrow> os_path_join (calc_dir c) ''KPOINTS'' | Some f \<Rightarrow> f) \<mapsto>
                 ''KPOINTS created by Atomic Simulation Environment\<newline>'' @ ''0\<newline>''
                 @ (if truthy (dict_get (parameters c) ''gamma'') then ''Gamma\<newline>''
                    else ''Monkhorst-Pack\<newline>'')
                 @ join '' '' (map py_str ks) @ ''\<newline>''
                 @ (if truthy (dict_get (parameters c) ''gamma'')
                    then join '' '' (map py_str gs) else ''0.0 0.0 0.0'') @ ''\<newline>''),
            None)"
proof -
  let ?p = "parameters c"
  have get: "dict_get ?p ''kpts'' = VList ks"
    using kpts by (simp add: dict_get_def)
  have cnt: "count_kpts ?p = Inr (Some 0)"
    unfolding count_kpts_def get using flat by (simp add: Let_def del: np_shape.simps)
  show ?thesis
  proof (cases "truthy (dict_get ?p ''gamma'')")
    case True
    with shift have it: "py_iter (dict_get ?p ''gamma'') = Inr gs" by simp
    from True have "map_of ?p ''gamma'' \<noteq> None"
      by (auto simp: dict_get_def split: option.splits)
    then obtain g where g: "map_of ?p ''gamma'' = Some g" by auto
    with it have itg: "py_iter g = Inr gs" by (simp add: dict_get_def)
    have mode: "kpoints_mode ?p (Some 0) = ModeG"
      using True by (simp add: kpoints_mode_def)
    have pts: "kpoints_points ?p ModeG = ([], Inr [VList ks, g])"
      using True kpts g by (simp add: kpoints_points_def dict_index_def)
    have "kpoints_text ?p (Some 0) ModeG =
            ([''KPOINTS created by Atomic Simulation Environment\<newline>'', ''0\<newline>'', ''Gamma\<newline>'',
              join '' '' (map py_str ks) @ ''\<newline>'', join '' '' (map py_str gs) @ ''\<newline>''], None)"
      unfolding kpoints_text_def pts using itg by (simp add: str_int_def)
    then show ?thesis
      using True by (simp add: write_kpoints_def Let_def cnt mode)
  next
    case False
    have mode: "kpoints_mode ?p (Some 0) = ModeM"
      using False by (simp add: kpoints_mode_def)
    have pts: "kpoints_points ?p ModeM =
                 ([], Inr [VList ks, VList [VStr ''0.0'', VStr ''0.0'', VStr ''0.0'']])"
      using False kpts by (simp add: kpoints_points_def)
    have "kpoints_text ?p (Some 0) ModeM =
            ([''KPOINTS created by Atomic Simulation Environment\<newline>'', ''0\<newline>'', ''Monkhorst-Pack\<newline>'',
              join '' '' (map py_str ks) @ ''\<newline>'', ''0.0 0.0 0.0\<newline>''], None)"
      unfolding kpoints_text_def pts by (simp add: str_int_def)
    then show ?thesis
      using False by (simp add: write_kpoints_def Let_def cnt mode)
  qed
qed

text \<open>For example at \<^verbatim>\<open>kpts=[6,6,6]\<close>, \<^verbatim>\<open>gamma=[0,0,0]\<close>.\<close>

lemma kpoints_automatic_example:
  "map_of (parameters (calc0 [(''kpts'', VList [VInt 6, VInt 6, VInt 6]),
                               (''gamma'', VList [VInt 0, VInt 0, VInt 0])] None)) ''kpts''
     = Some (VList [VInt 6, VInt 6, VInt 6])
   \<and> np_shape (VList [VInt 6, VInt 6, VInt 6]) = Some [3]
   \<and> py_iter (dict_get (parameters (calc0 [(''kpts'', VList [VInt 6, VInt 6, VInt 6]),
                               (''gamma'', VList [VInt 0, VInt 0, VInt 0])] None)) ''gamma'')
       = Inr [VInt 0, VInt 0, VInt 0]
   \<and> write_kpoints None (calc0 [(''kpts'', VList [VInt 6, VInt 6, VInt 6]),
                               (''gamma'', VList [VInt 0, VInt 0, VInt 0])] None) Map.empty =
        ([''run/KPOINTS'' \<mapsto>
            ''KPOINTS created by Atomic Simulation Environment\<newline>0\<newline>Gamma\<newline>6 6 6\<newline>0 0 0\<newline>''],
         None)"
proof -
  let ?c = "calc0 [(''kpts'', VList [VInt 6, VInt 6, VInt 6]),
                   (''gamma'', VList [VInt 0, VInt 0, VInt 0])] None"
  have h1: "map_of (parameters ?c) ''kpts'' = Some (VList [VInt 6, VInt 6, VInt 6])"
    by (simp add: calc0_def)
  have h2: "np_shape (VList [VInt 6, VInt 6, VInt 6]) = Some [3]"
    by simp
  have h3: "py_iter (dict_get (parameters ?c) ''gamma'') = Inr [VInt 0, VInt 0, VInt 0]"
    by (simp add: calc0_def dict_get_def)
  have h3': "\<not> truthy (dict_get (parameters ?c) ''gamma'')
             \<or> py_iter (dict_get (parameters ?c) ''gamma'') = Inr [VInt 0, VInt 0, VInt 0]"
    using h3 by simp
  have g: "truthy (dict_get (parameters ?c) ''gamma'')"
    by (simp add: calc0_def dict_get_def)
  have d: "calc_dir ?c = ''run''" by (simp add: calc0_def)
  have s6: "str_int 6 = ''6''" and s0: "str_int 0 = ''0''"
    by (simp_all add: str_int_def)
  show ?thesis
    using h1 h2 h3 kpoints_automatic [OF h1 h2 h3', of None Map.empty] g d
    by (simp add: os_path_join_def s6 s0 del: np_shape.simps)
qed

text \<open>
  Claim C1 says that a cartesian or reciprocal write raises the validation error exactly
  when some k-point has a field count other than 4. The code appends the whole list
  \<^verbatim>\<open>p['kpts']\<close> to \<^verbatim>\<open>points\<close> as one element, so the test \<^verbatim>\<open>len(point) != 4\<close> compares the
  number of k-points with 4: two k-points of four fields each are rejected (after the
  three header lines are in the file).
\<close>

theorem kpoints_two_valid_points_rejected:
  "write_kpoints None
     (calc0 [(''kpts'', VList [VList [VInt 0, VInt 0, VInt 0, VInt 1],
                               VList [VInt 1, VInt 0, VInt 0, VInt 1]])] None) Map.empty =
     ([''run/KPOINTS'' \<mapsto>
         ''KPOINTS created by Atomic Simulation Environment\<newline>2\<newline>Cartesian\<newline>''],
      Some ValueError)"
  by (simp add: write_kpoints_def count_kpts_def kpoints_mode_def kpoints_text_def
      kpoints_points_def dict_get_def dict_index_def calc0_def os_path_join_def str_int_def)

text \<open>
  Claim C2 says that the count line and the \<^verbatim>\<open>Cartesian\<close> line are followed by one line
  per k-point. Four k-points of four fields each pass the test above, and the final loop
  then writes the single element of \<^verbatim>\<open>points\<close>: one line that holds the text of every
  k-point.
\<close>

theorem kpoints_four_points_one_line:
  "write_kpoints None
     (calc0 [(''kpts'', VList [VList [VInt 0, VInt 0, VInt 0, VInt 1],
                               VList [VInt 1, VInt 0, VInt 0, VInt 1],
                               VList [VInt 0, VInt 1, VInt 0, VInt 1],
                               VList [VInt 0, VInt 0, VInt 1, VInt 1]])] None) Map.empty =
     ([''run/KPOINTS'' \<mapsto>
         ''KPOINTS created by Atomic Simulation Environment\<newline>4\<newline>Cartesian\<newline>[0, 0, 0, 1] [1, 0, 0, 1] [0, 1, 0, 1] [0, 0, 1, 1]\<newline>''],
      None)"
  by (simp add: write_kpoints_def count_kpts_def kpoints_mode_def kpoints_text_def
      kpoints_points_def dict_get_def dict_index_def calc0_def os_path_join_def str_int_def)

section \<open>Properties of the setters\<close>

text \<open>
  Claim C9. Whatever the value passed (\<^verbatim>\<open>None\<close> too), \<^verbatim>\<open>set_ldau_luj_dict\<close> raises when
  the store has the key \<^verbatim>\<open>setups\<close>, and it does so first: no dictionary is produced and
  the calculator is as before (the species order has not been computed).
\<close>

theorem ldau_luj_setups_conflict:
  "has_key (parameters c) ''setups'' \<Longrightarrow> set_ldau_luj_dict c v = (Inl PlainException, c)"
  by (simp add: set_ldau_luj_dict_def)

text \<open>The theorem at a store with a \<^verbatim>\<open>setups\<close> entry and the value \<^verbatim>\<open>None\<close>.\<close>

theorem ldau_luj_setups_conflict_witness:
  "has_key (parameters (calc0 [(''setups'', VDict [(''Fe'', VStr ''_pv'')])] None)) ''setups''
   \<and> set_ldau_luj_dict (calc0 [(''setups'', VDict [(''Fe'', VStr ''_pv'')])] None) VNone
       = (Inl PlainException, calc0 [(''setups'', VDict [(''Fe'', VStr ''_pv'')])] None)"
proof -
  have h: "has_key (parameters (calc0 [(''setups'', VDict [(''Fe'', VStr ''_pv'')])] None)) ''setups''"
    by (simp add: calc0_def has_key_def)
  show ?thesis using h ldau_luj_setups_conflict [OF h, of VNone] by simp
qed

text \<open>
  Claim C5 says that \<^verbatim>\<open>set\<close> with an \<^verbatim>\<open>ispin\<close> other than \<^verbatim>\<open>None\<close>, 1 or 2 is a silent
  no-op. For \<^verbatim>\<open>ispin=3\<close> the setter \<^verbatim>\<open>set_ispin_dict\<close> falls off its end and returns
  \<^verbatim>\<open>None\<close>; \<^verbatim>\<open>kwargs.update(None)\<close> then raises a \<^verbatim>\<open>TypeError\<close>. The store is unchanged,
  but the call is not silent.
\<close>

theorem set_ispin_3_raises:
  "set_ispin_dict (calc0 [] None) (VInt 3) = Inr None
   \<and> set_calc xc_table0 (calc0 [] None) [(''ispin'', VInt 3)] = (Inl TypeError, calc0 [] None)"
  by (simp add: set_calc_def expand_kwargs_def expand_xc_def expand_ispin_def
      set_ispin_dict_def has_key_def dict_get_def)

subsection \<open>Dictionaries as maps\<close>

text \<open>Merging a dictionary and scheduling removals, read through \<^const>\<open>map_of\<close>.\<close>

lemma map_of_dict_update:
  "distinct (map fst e) \<Longrightarrow> map_of (dict_update d e) = map_of d ++ map_of e"
proof (induction e arbitrary: d)
  case Nil
  then show ?case by (simp add: dict_update_def)
next
  case (Cons kv e)
  have notin: "map_of e (fst kv) = None"
    using Cons.prems by (simp add: map_of_eq_None_iff)
  have "map_of (dict_update d (kv # e)) = map_of (dict_update (AList.update (fst kv) (snd kv) d) e)"
    by (simp add: dict_update_def)
  also have "\<dots> = (map_of d)(fst kv \<mapsto> snd kv) ++ map_of e"
    using Cons.IH Cons.prems by (simp add: update_conv')
  also have "\<dots> = map_of d ++ map_of (kv # e)"
    using notin by (cases kv) (auto simp: map_add_def fun_eq_iff split: option.splits)
  finally show ?case .
qed

lemma distinct_dict_update:
  "distinct (map fst d) \<Longrightarrow> distinct (map fst (dict_update d e))"
  unfolding dict_update_def
  by (induction e arbitrary: d) (simp_all add: distinct_update)

lemma map_of_fold_removal:
  "map_of (fold (\<lambda>key d. if has_key p key then AList.update key VNone d else d) ks d0) k =
     (if k \<in> set ks \<and> has_key p k then Some VNone else map_of d0 k)"
  by (induction ks arbitrary: d0) (auto simp: update_conv')

lemma distinct_fold_removal:
  "distinct (map fst d0) \<Longrightarrow>
   distinct (map fst (fold (\<lambda>key d. if has_key p key then AList.update key VNone d else d) ks d0))"
  by (induction ks arbitrary: d0) (simp_all add: distinct_update)


text \<open>
  Claim C4. Let the store hold the previous method \<open>old\<close> (a non-empty string) under
  \<^verbatim>\<open>xc\<close>, and let the defaults table have the entries \<open>od\<close> for \<open>old\<close> and \<open>nd\<close> for the
  new method, neither of which lists \<^verbatim>\<open>xc\<close> itself among the implied parameters. Then
  \<^verbatim>\<open>set_xc_dict\<close> returns a dictionary that gives every name of \<open>nd\<close> the value \<open>nd\<close>
  gives it, sets \<^verbatim>\<open>xc\<close> to the new method, gives \<^verbatim>\<open>None\<close> (the removal sentinel) to every
  name of \<open>od\<close> that the store holds and \<open>nd\<close> does not list, and has no other key.
\<close>

theorem set_xc_dict_result:
  assumes old: "map_of (parameters c) ''xc'' = Some (VStr old)" and nonempty: "old \<noteq> []"
    and od: "T (lower old) = Some od"
    and nd: "T (lower new) = Some nd"
    and dist: "distinct (map fst nd)"
    and od_xc: "''xc'' \<notin> fst ` set od"
    and nd_xc: "''xc'' \<notin> fst ` set nd"
  shows "\<exists>d. set_xc_dict T c (VStr new) = Inr d \<and> distinct (map fst d) \<and>
           (\<forall>k. map_of d k =
                  (if k \<in> fst ` set nd then map_of nd k
                   else if k = ''xc'' then Some (VStr new)
                   else if k \<in> fst ` set od \<and> has_key (parameters c) k then Some VNone
                   else None))"
proof -
  let ?p = "parameters c"
  define d1 where
    "d1 = fold (\<lambda>key d. if has_key ?p key then AList.update key VNone d else d)
            (map fst od) [(''xc'', VStr new)]"
  have res: "set_xc_dict T c (VStr new) = Inr (dict_update d1 nd)"
    using old nonempty od nd
    by (simp add: set_xc_dict_def dict_get_def xc_lookup_def d1_def)
  have d1_dist: "distinct (map fst d1)"
    unfolding d1_def by (rule distinct_fold_removal) simp
  have d1_map: "map_of d1 k =
      (if k \<in> fst ` set od \<and> has_key ?p k then Some VNone
       else if k = ''xc'' then Some (VStr new) else None)" for k
    unfolding d1_def by (simp add: map_of_fold_removal)
  have "map_of (dict_update d1 nd) k =
          (if k \<in> fst ` set nd then map_of nd k
           else if k = ''xc'' then Some (VStr new)
           else if k \<in> fst ` set od \<and> has_key ?p k then Some VNone
           else None)" for k
  proof (cases "k \<in> fst ` set nd")
    case True
    then obtain v where "map_of nd k = Some v"
      by (metis domD dom_map_of_conv_image_fst)
    then show ?thesis
      using True by (simp add: map_of_dict_update [OF dist] map_add_def)
  next
    case False
    then have "map_of nd k = None"
      by (simp add: map_of_eq_None_iff)
    then show ?thesis
      using False od_xc by (auto simp: map_of_dict_update [OF dist] map_add_def d1_map)
  qed
  with res d1_dist show ?thesis
    by (auto intro: distinct_dict_update)
qed

text \<open>The theorem at a store left by the method \<^verbatim>\<open>rpbe\<close>, for the new method \<^verbatim>\<open>PBE\<close>:
  \<^verbatim>\<open>gga\<close> is scheduled for removal, \<^verbatim>\<open>pp\<close> takes the new value.\<close>

theorem set_xc_dict_result_witness:
  "map_of (parameters (calc0 [(''xc'', VStr ''rpbe''), (''pp'', VStr ''LDA''), (''gga'', VStr ''RP'')] None)) ''xc''
     = Some (VStr ''rpbe'')
   \<and> ''rpbe'' \<noteq> []
   \<and> xc_table0 (lower ''rpbe'') = Some [(''pp'', VStr ''LDA''), (''gga'', VStr ''RP'')]
   \<and> xc_table0 (lower ''PBE'') = Some [(''pp'', VStr ''PBE'')]
   \<and> (\<exists>d. set_xc_dict xc_table0
              (calc0 [(''xc'', VStr ''rpbe''), (''pp'', VStr ''LDA''), (''gga'', VStr ''RP'')] None)
              (VStr ''PBE'') = Inr d
            \<and> map_of d ''xc'' = Some (VStr ''PBE'')
            \<and> map_of d ''pp'' = Some (VStr ''PBE'')
            \<and> map_of d ''gga'' = Some VNone
            \<and> map_of d ''encut'' = None)"
proof -
  let ?c = "calc0 [(''xc'', VStr ''rpbe''), (''pp'', VStr ''LDA''), (''gga'', VStr ''RP'')] None"
  have h1: "map_of (parameters ?c) ''xc'' = Some (VStr ''rpbe'')"
    by (simp add: calc0_def)
  have h2: "''rpbe'' \<noteq> []" by simp
  have h3: "xc_table0 (lower ''rpbe'') = Some [(''pp'', VStr ''LDA''), (''gga'', VStr ''RP'')]"
    by code_simp
  have h4: "xc_table0 (lower ''PBE'') = Some [(''pp'', VStr ''PBE'')]"
    by code_simp
  have h5: "distinct (map fst [(''pp'', VStr ''PBE'')])" by simp
  have h6: "''xc'' \<notin> fst ` set [(''pp'', VStr ''LDA''), (''gga'', VStr ''RP'')]" by simp
  have h7: "''xc'' \<notin> fst ` set [(''pp'', VStr ''PBE'')]" by simp
  have hk: "has_key (parameters ?c) ''gga''" by (simp add: calc0_def has_key_def)
  from set_xc_dict_result [OF h1 h2 h3 h4 h5 h6 h7]
  obtain d where d: "set_xc_dict xc_table0 ?c (VStr ''PBE'') = Inr d"
    and m: "\<And>k. map_of d k =
                  (if k \<in> fst ` set [(''pp'', VStr ''PBE'')] then map_of [(''pp'', VStr ''PBE'')] k
                   else if k = ''xc'' then Some (VStr ''PBE'')
                   else if k \<in> fst ` set [(''pp'', VStr ''LDA''), (''gga'', VStr ''RP'')]
                           \<and> has_key (parameters ?c) k then Some VNone
                   else None)"
    by blast
  have "map_of d ''xc'' = Some (VStr ''PBE'')" by (simp add: m)
  moreover have "map_of d ''pp'' = Some (VStr ''PBE'')" by (simp add: m)
  moreover have "map_of d ''gga'' = Some VNone" using hk by (simp add: m)
  moreover have "map_of d ''encut'' = None" by (simp add: m)
  ultimately show ?thesis using h1 h3 h4 d by blast
qed

subsection \<open>Calling \<^verbatim>\<open>set\<close> twice\<close>








lemma has_key_iff: "has_key d k = (\<exists>v. map_of d k = Some v)"
  by (simp add: has_key_def)

lemma dict_get_Some: "map_of d k = Some v \<Longrightarrow> dict_get d k = v"
  by (simp add: dict_get_def)



























text \<open>The two calls step by step, for the examples.\<close>

lemma apply_param_pair:
  "apply_param (k, v) (ch, p) =
     (if v = VNone then (if has_key p k then (ch @ [k], AList.delete k p) else (ch, p))
      else if map_of p k = Some v then (ch, p)
      else (ch @ [k], AList.update k v p))"
  by (simp add: apply_param_def Let_def)

lemma low: "lower ''PBE'' = ''pbe''" "lower ''rpbe'' = ''rpbe''"
  by code_simp+















text \<open>
  The two other conditions of the amended claim are needed as well. With the store left
  by \<^verbatim>\<open>rpbe\<close>, \<^verbatim>\<open>set(xc='PBE', gga='PE')\<close> removes \<^verbatim>\<open>gga\<close> (a default of the old method; the
  removal replaces the \<^verbatim>\<open>PE\<close> of the call), and the second call sets it. And
  \<^verbatim>\<open>set(ldau_luj=None, setups=...)\<close> stores \<^verbatim>\<open>setups\<close>, so that the second call fails at the
  test of \<^verbatim>\<open>set_ldau_luj_dict\<close>.
\<close>

lemma set_calc_xc_override_example:
  "set_calc xc_table0 calc_xc [(''xc'', VStr ''PBE''), (''gga'', VStr ''PE'')]
     = (Inr [''xc'', ''gga'', ''pp''], calc0 [(''xc'', VStr ''PBE''), (''pp'', VStr ''PBE'')] None)
   \<and> set_calc xc_table0 (calc0 [(''xc'', VStr ''PBE''), (''pp'', VStr ''PBE'')] None)
         [(''xc'', VStr ''PBE''), (''gga'', VStr ''PE'')]
     = (Inr [''gga''],
        calc0 [(''xc'', VStr ''PBE''), (''pp'', VStr ''PBE''), (''gga'', VStr ''PE'')] None)"
proof -
  have e1: "expand_kwargs xc_table0 calc_xc [(''xc'', VStr ''PBE''), (''gga'', VStr ''PE'')]
          = (Inr [(''xc'', VStr ''PBE''), (''gga'', VNone), (''pp'', VStr ''PBE'')], calc_xc)"
    by (simp add: expand_kwargs_def expand_xc_def expand_ispin_def expand_ldau_luj_def
        expand_nsw_def set_xc_dict_def xc_lookup_def xc_table0_def calc_xc_def calc0_def
        has_key_def dict_get_def dict_update_def low)
  have e2: "expand_kwargs xc_table0 (calc0 [(''xc'', VStr ''PBE''), (''pp'', VStr ''PBE'')] None)
            [(''xc'', VStr ''PBE''), (''gga'', VStr ''PE'')]
          = (Inr [(''xc'', VStr ''PBE''), (''gga'', VStr ''PE''), (''pp'', VStr ''PBE'')],
             calc0 [(''xc'', VStr ''PBE''), (''pp'', VStr ''PBE'')] None)"
    by (simp add: expand_kwargs_def expand_xc_def expand_ispin_def expand_ldau_luj_def
        expand_nsw_def set_xc_dict_def xc_lookup_def xc_table0_def calc0_def
        has_key_def dict_get_def dict_update_def low)
  have "set_calc xc_table0 calc_xc [(''xc'', VStr ''PBE''), (''gga'', VStr ''PE'')]
     = (Inr [''xc'', ''gga'', ''pp''], calc0 [(''xc'', VStr ''PBE''), (''pp'', VStr ''PBE'')] None)"
    unfolding set_calc_def e1
    by (simp add: calculator_set_def apply_param_pair reset_def calc_xc_def calc0_def has_key_def)
  moreover have "set_calc xc_table0 (calc0 [(''xc'', VStr ''PBE''), (''pp'', VStr ''PBE'')] None)
         [(''xc'', VStr ''PBE''), (''gga'', VStr ''PE'')]
     = (Inr [''gga''],
        calc0 [(''xc'', VStr ''PBE''), (''pp'', VStr ''PBE''), (''gga'', VStr ''PE'')] None)"
    unfolding set_calc_def e2
    by (simp add: calculator_set_def apply_param_pair reset_def calc0_def has_key_def)
  ultimately show ?thesis by simp
qed

lemma set_calc_setups_example:
  "set_calc xc_table0 (calc0 [] (Some []))
         [(''ldau_luj'', VNone), (''setups'', VDict [(''Fe'', VStr ''_pv'')])]
     = (Inr [''setups''], calc0 [(''setups'', VDict [(''Fe'', VStr ''_pv'')])] (Some []))
   \<and> set_calc xc_table0 (calc0 [(''setups'', VDict [(''Fe'', VStr ''_pv'')])] (Some []))
         [(''ldau_luj'', VNone), (''setups'', VDict [(''Fe'', VStr ''_pv'')])]
     = (Inl PlainException, calc0 [(''setups'', VDict [(''Fe'', VStr ''_pv'')])] (Some []))"
proof -
  have e1: "expand_kwargs xc_table0 (calc0 [] (Some []))
            [(''ldau_luj'', VNone), (''setups'', VDict [(''Fe'', VStr ''_pv'')])]
          = (Inr [(''ldau_luj'', VNone), (''setups'', VDict [(''Fe'', VStr ''_pv'')]),
                  (''ldaul'', VNone), (''ldauu'', VNone), (''ldauj'', VNone)],
             calc0 [] (Some []))"
    by (simp add: expand_kwargs_def expand_xc_def expand_ispin_def expand_ldau_luj_def
        expand_nsw_def set_ldau_luj_dict_def calc0_def has_key_def dict_get_def dict_update_def)
  have e2: "expand_kwargs xc_table0 (calc0 [(''setups'', VDict [(''Fe'', VStr ''_pv'')])] (Some []))
            [(''ldau_luj'', VNone), (''setups'', VDict [(''Fe'', VStr ''_pv'')])]
          = (Inl PlainException, calc0 [(''setups'', VDict [(''Fe'', VStr ''_pv'')])] (Some []))"
    by (simp add: expand_kwargs_def expand_xc_def expand_ispin_def expand_ldau_luj_def
        expand_nsw_def set_ldau_luj_dict_def calc0_def has_key_def dict_get_def dict_update_def)
  have "set_calc xc_table0 (calc0 [] (Some []))
         [(''ldau_luj'', VNone), (''setups'', VDict [(''Fe'', VStr ''_pv'')])]
     = (Inr [''setups''], calc0 [(''setups'', VDict [(''Fe'', VStr ''_pv'')])] (Some []))"
    unfolding set_calc_def e1
    by (simp add: calculator_set_def apply_param_pair reset_def calc0_def has_key_def)
  moreover have "set_calc xc_table0 (calc0 [(''setups'', VDict [(''Fe'', VStr ''_pv'')])] (Some []))
         [(''ldau_luj'', VNone), (''setups'', VDict [(''Fe'', VStr ''_pv'')])]
     = (Inl PlainException, calc0 [(''setups'', VDict [(''Fe'', VStr ''_pv'')])] (Some []))"
    unfolding set_calc_def e2 by simp
  ultimately show ?thesis by simp
qed

section \<open>Properties of \<^verbatim>\<open>write_incar\<close>\<close>

lemma incar_line_None: "(incar_line c k v = Inr None) = (v = VNone)"
  by (cases v) (auto simp: incar_line_def Let_def map_sum_def split: option.splits sum.splits)

lemma incar_line_directive:
  "upper k \<noteq> ''RWIGS'' \<Longrightarrow> v \<noteq> VNone \<Longrightarrow> incar_line c k v = Inr (Some (spec_directive k v))"
  by (cases v) (simp_all add: incar_line_def spec_directive_def)

lemma incar_lines_ok:
  "snd (incar_lines c d) = None \<Longrightarrow>
   list_all2 (\<lambda>kv l. incar_line c (fst kv) (snd kv) = Inr (Some l))
     (filter (\<lambda>kv. snd kv \<noteq> VNone) d) (fst (incar_lines c d))"
proof (induction d)
  case Nil
  then show ?case by simp
next
  case (Cons kv d)
  show ?case
  proof (cases "incar_line c (fst kv) (snd kv)")
    case (Inl e)
    with Cons.prems show ?thesis by simp
  next
    case (Inr r)
    show ?thesis
    proof (cases r)
      case None
      with Inr have "snd kv = VNone" by (simp add: incar_line_None)
      with Cons Inr None show ?thesis by simp
    next
      case (Some l)
      with Inr have "snd kv \<noteq> VNone"
        using incar_line_None [of c "fst kv" "snd kv"] by auto
      with Cons Inr Some show ?thesis by (simp add: Let_def)
    qed
  qed
qed

lemma incar_lines_no_rwigs:
  "list_all (\<lambda>kv. upper (fst kv) \<noteq> ''RWIGS'') d \<Longrightarrow> snd (incar_lines c d) = None"
proof (induction d)
  case Nil
  then show ?case by simp
next
  case (Cons kv d)
  then show ?case
    by (cases "snd kv = VNone")
       (simp_all add: incar_line_directive Let_def incar_line_None [THEN iffD2])
qed

lemma map_err_total:
  "(\<And>x. x \<in> set xs \<Longrightarrow> f x = Inr (g x)) \<Longrightarrow> map_err f xs = Inr (map g xs)"
  by (induction xs) simp_all

lemma set_nonspecial_keys:
  "set (nonspecial_keys c) = fst ` set (parameters c) - set (special_kwargs c)"
  by (auto simp: nonspecial_keys_def)

lemma incar_dict_ok:
  assumes "enumerates hord (nonspecial_keys c)"
  shows "incar_dict hord c = Inr (map (\<lambda>k. (k, dict_get (parameters c) k)) (incar_keys hord c))"
proof -
  have "dict_index (parameters c) k = Inr (dict_get (parameters c) k)"
    if "k \<in> set (incar_keys hord c)" for k
  proof -
    from that assms have "k \<in> fst ` set (parameters c)"
      by (simp add: incar_keys_def enumerates_def set_nonspecial_keys)
    then obtain v where "map_of (parameters c) k = Some v"
      by (metis domD dom_map_of_conv_image_fst)
    then show ?thesis by (simp add: dict_index_def dict_get_def)
  qed
  then show ?thesis
    unfolding incar_dict_def by (intro map_err_total) simp
qed

lemma filter_map_pairs:
  "filter (\<lambda>kv. snd kv \<noteq> VNone) (map (\<lambda>k. (k, g k)) ks) = map (\<lambda>k. (k, g k)) (filter (\<lambda>k. g k \<noteq> VNone) ks)"
  by (induction ks) simp_all

lemma nonspecial_calc_incar:
  "nonspecial_keys calc_incar = [''encut'', ''lwave'', ''magmom'', ''nsw'', ''prec'', ''sigma'']"
  by (simp add: nonspecial_keys_def calc_incar_def calc0_def)

lemma enumerates_rev: "distinct ks \<Longrightarrow> enumerates rev ks"
  by (simp add: enumerates_def)

lemma incar_line_rwigs:
  assumes "upper k = ''RWIGS''" and "v \<noteq> VNone"
  shows "incar_line c k v =
           (case ppp_list c of
              None \<Rightarrow> Inl AttributeError
            | Some species \<Rightarrow> map_sum id Some (spec_rwigs_directive species k v))"
  using assms
  by (auto simp: incar_line_def spec_rwigs_directive_def split: option.splits sum.splits)

lemma incar_line_spec:
  assumes "incar_line c k v = Inr (Some l)"
  shows "if upper k = ''RWIGS''
         then (\<exists>species. ppp_list c = Some species \<and> spec_rwigs_directive species k v = Inr l)
         else l = spec_directive k v"
proof -
  from assms have nn: "v \<noteq> VNone"
    using incar_line_None [of c k v] by auto
  show ?thesis
  proof (cases "upper k = ''RWIGS''")
    case True
    from assms show ?thesis
      unfolding incar_line_rwigs [OF True nn] using True
      by (auto split: option.splits simp: map_sum_def split: sum.splits)
  next
    case False
    from assms show ?thesis
      unfolding incar_line_directive [OF False nn] using False by simp
  qed
qed

lemma incar_lines_complete_iff:
  "(snd (incar_lines c d) = None) = (\<forall>kv \<in> set d. \<exists>r. incar_line c (fst kv) (snd kv) = Inr r)"
proof (induction d)
  case Nil
  then show ?case by simp
next
  case (Cons kv d)
  show ?case
  proof (cases "incar_line c (fst kv) (snd kv)")
    case (Inl e)
    then show ?thesis by simp
  next
    case (Inr r)
    with Cons show ?thesis by (cases r) (simp_all add: Let_def)
  qed
qed

lemma list_all2_line_of:
  assumes "list_all2 (\<lambda>k l. incar_line c k (dict_get (parameters c) k) = Inr (Some l)) ks ls"
  shows "ls = map (line_of c) ks"
  using assms by (induction rule: list_all2_induct) (simp_all add: line_of_def)

lemma mset_map_filter_perm:
  assumes "distinct xs" "distinct ys" "set xs = set ys"
  shows "mset (map f (filter P xs)) = mset (map f (filter P ys))"
proof -
  from assms have "mset xs = mset ys"
    by (simp add: set_eq_iff_mset_eq_distinct)
  then have "mset (filter P xs) = mset (filter P ys)"
    by (simp add: mset_filter)
  then show ?thesis
    by (metis mset_map)
qed

text \<open>What one write does, for an iteration order that lists every key once: it completes
  exactly when every key has a line or is skipped, and the file is then the comment line
  and the lines of the keys in the order of the iteration.\<close>

lemma write_incar_written:
  assumes enum: "enumerates hord (nonspecial_keys c)"
  shows "(snd (write_incar hord incar c fs) = None)
           = (\<forall>k \<in> set (nonspecial_keys c). \<exists>r. incar_line c k (dict_get (parameters c) k) = Inr r)"
    and "snd (write_incar hord incar c fs) = None \<Longrightarrow>
         \<exists>lines.
           fst (write_incar hord incar c fs)
             (case incar of None \<Rightarrow> os_path_join (calc_dir c) ''INCAR'' | Some f \<Rightarrow> f)
             = Some (concat (''INCAR created by Atomic Simulation Environment\<newline>'' # lines))
           \<and> list_all2 (\<lambda>k l. incar_line c k (dict_get (parameters c) k) = Inr (Some l))
                (filter (\<lambda>k. dict_get (parameters c) k \<noteq> VNone) (hord (nonspecial_keys c)))
                lines"
proof -
  let ?d = "map (\<lambda>k. (k, dict_get (parameters c) k)) (incar_keys hord c)"
  have dict: "incar_dict hord c = Inr ?d"
    using enum by (simp add: incar_dict_ok)
  have snd_eq: "snd (write_incar hord incar c fs) = snd (incar_lines c ?d)"
    by (simp add: write_incar_def dict Let_def)
  have keys: "set (incar_keys hord c) = set (nonspecial_keys c)"
    using enum by (simp add: incar_keys_def enumerates_def)
  show "(snd (write_incar hord incar c fs) = None)
           = (\<forall>k \<in> set (nonspecial_keys c). \<exists>r. incar_line c k (dict_get (parameters c) k) = Inr r)"
    by (simp add: snd_eq incar_lines_complete_iff keys)
  assume "snd (write_incar hord incar c fs) = None"
  then have ok: "snd (incar_lines c ?d) = None" by (simp add: snd_eq)
  have "list_all2 (\<lambda>kv l. incar_line c (fst kv) (snd kv) = Inr (Some l))
          (filter (\<lambda>kv. snd kv \<noteq> VNone) ?d) (fst (incar_lines c ?d))"
    by (rule incar_lines_ok [OF ok])
  then have "list_all2 (\<lambda>k l. incar_line c k (dict_get (parameters c) k) = Inr (Some l))
          (filter (\<lambda>k. dict_get (parameters c) k \<noteq> VNone) (hord (nonspecial_keys c)))
          (fst (incar_lines c ?d))"
    by (simp add: filter_map_pairs list_all2_map1 incar_keys_def)
  moreover have "fst (write_incar hord incar c fs)
            (case incar of None \<Rightarrow> os_path_join (calc_dir c) ''INCAR'' | Some f \<Rightarrow> f)
            = Some (concat (''INCAR created by Atomic Simulation Environment\<newline>'' # fst (incar_lines c ?d)))"
    by (simp add: write_incar_def dict Let_def)
  ultimately show "\<exists>lines.
           fst (write_incar hord incar c fs)
             (case incar of None \<Rightarrow> os_path_join (calc_dir c) ''INCAR'' | Some f \<Rightarrow> f)
             = Some (concat (''INCAR created by Atomic Simulation Environment\<newline>'' # lines))
           \<and> list_all2 (\<lambda>k l. incar_line c k (dict_get (parameters c) k) = Inr (Some l))
                (filter (\<lambda>k. dict_get (parameters c) k \<noteq> VNone) (hord (nonspecial_keys c)))
                lines"
    by blast
qed

lemma write_incar_same_order:
  assumes enum: "enumerates h1 (nonspecial_keys c)"
    and same: "h1 (nonspecial_keys c) = h2 (nonspecial_keys c)"
  shows "snd (write_incar h1 incar c fs1) = snd (write_incar h2 incar c fs2)"
    and "fst (write_incar h1 incar c fs1)
           (case incar of None \<Rightarrow> os_path_join (calc_dir c) ''INCAR'' | Some f \<Rightarrow> f)
         = fst (write_incar h2 incar c fs2)
             (case incar of None \<Rightarrow> os_path_join (calc_dir c) ''INCAR'' | Some f \<Rightarrow> f)"
proof -
  let ?d = "map (\<lambda>k. (k, dict_get (parameters c) k)) (incar_keys h1 c)"
  have d1: "incar_dict h1 c = Inr ?d"
    using enum by (simp add: incar_dict_ok)
  from same have "incar_dict h2 c = incar_dict h1 c"
    by (simp add: incar_dict_def incar_keys_def)
  with d1 have d2: "incar_dict h2 c = Inr ?d" by simp
  show "snd (write_incar h1 incar c fs1) = snd (write_incar h2 incar c fs2)"
    by (simp add: write_incar_def d1 d2 Let_def)
  show "fst (write_incar h1 incar c fs1)
           (case incar of None \<Rightarrow> os_path_join (calc_dir c) ''INCAR'' | Some f \<Rightarrow> f)
         = fst (write_incar h2 incar c fs2)
             (case incar of None \<Rightarrow> os_path_join (calc_dir c) ''INCAR'' | Some f \<Rightarrow> f)"
    by (simp add: write_incar_def d1 d2 Let_def)
qed

text \<open>
  Claim C6, as amended. Take two writes of the same store, from any two file systems, with
  the key set iterated in the orders \<open>h1\<close> and \<open>h2\<close> (each lists every non-special key
  once). Whether the write completes does not depend on the order. When it completes,
  each file is the comment line followed by the lines of the non-special keys whose value
  is not \<^verbatim>\<open>None\<close>, in the order of that write's iteration, and the two files hold the same
  lines, each as often in one as in the other. When the two iterations list the keys in
  the same order, the two writes end alike and leave byte-identical files, whatever the
  file systems held before. The order of the iteration need not be the order of
  insertion.
\<close>

theorem write_incar_orders:
  assumes e1: "enumerates h1 (nonspecial_keys c)" and e2: "enumerates h2 (nonspecial_keys c)"
  shows "((snd (write_incar h1 incar c fs1) = None) = (snd (write_incar h2 incar c fs2) = None))
     \<and> (snd (write_incar h1 incar c fs1) = None \<longrightarrow>
          (\<exists>l1 l2.
             fst (write_incar h1 incar c fs1)
               (case incar of None \<Rightarrow> os_path_join (calc_dir c) ''INCAR'' | Some f \<Rightarrow> f)
               = Some (concat (''INCAR created by Atomic Simulation Environment\<newline>'' # l1))
           \<and> fst (write_incar h2 incar c fs2)
               (case incar of None \<Rightarrow> os_path_join (calc_dir c) ''INCAR'' | Some f \<Rightarrow> f)
               = Some (concat (''INCAR created by Atomic Simulation Environment\<newline>'' # l2))
           \<and> list_all2 (\<lambda>k l. incar_line c k (dict_get (parameters c) k) = Inr (Some l))
                (filter (\<lambda>k. dict_get (parameters c) k \<noteq> VNone) (h1 (nonspecial_keys c))) l1
           \<and> list_all2 (\<lambda>k l. incar_line c k (dict_get (parameters c) k) = Inr (Some l))
                (filter (\<lambda>k. dict_get (parameters c) k \<noteq> VNone) (h2 (nonspecial_keys c))) l2
           \<and> mset l1 = mset l2))
     \<and> (h1 (nonspecial_keys c) = h2 (nonspecial_keys c) \<longrightarrow>
          snd (write_incar h1 incar c fs1) = snd (write_incar h2 incar c fs2)
          \<and> fst (write_incar h1 incar c fs1)
                (case incar of None \<Rightarrow> os_path_join (calc_dir c) ''INCAR'' | Some f \<Rightarrow> f)
              = fst (write_incar h2 incar c fs2)
                  (case incar of None \<Rightarrow> os_path_join (calc_dir c) ''INCAR'' | Some f \<Rightarrow> f))"
proof (intro conjI impI)
  show same: "(snd (write_incar h1 incar c fs1) = None) = (snd (write_incar h2 incar c fs2) = None)"
    by (simp add: write_incar_written(1) [OF e1] write_incar_written(1) [OF e2])
  show "snd (write_incar h1 incar c fs1) = snd (write_incar h2 incar c fs2)"
    if "h1 (nonspecial_keys c) = h2 (nonspecial_keys c)"
    using e1 that by (rule write_incar_same_order(1))
  show "fst (write_incar h1 incar c fs1)
          (case incar of None \<Rightarrow> os_path_join (calc_dir c) ''INCAR'' | Some f \<Rightarrow> f)
        = fst (write_incar h2 incar c fs2)
            (case incar of None \<Rightarrow> os_path_join (calc_dir c) ''INCAR'' | Some f \<Rightarrow> f)"
    if "h1 (nonspecial_keys c) = h2 (nonspecial_keys c)"
    using e1 that by (rule write_incar_same_order(2))
  assume ok1: "snd (write_incar h1 incar c fs1) = None"
  with same have ok2: "snd (write_incar h2 incar c fs2) = None" by simp
  let ?P = "\<lambda>k. dict_get (parameters c) k \<noteq> VNone"
  from write_incar_written(2) [OF e1 ok1] obtain l1 where
    c1: "fst (write_incar h1 incar c fs1)
           (case incar of None \<Rightarrow> os_path_join (calc_dir c) ''INCAR'' | Some f \<Rightarrow> f)
           = Some (concat (''INCAR created by Atomic Simulation Environment\<newline>'' # l1))"
    and r1: "list_all2 (\<lambda>k l. incar_line c k (dict_get (parameters c) k) = Inr (Some l))
               (filter ?P (h1 (nonspecial_keys c))) l1"
    by blast
  from write_incar_written(2) [OF e2 ok2] obtain l2 where
    c2: "fst (write_incar h2 incar c fs2)
           (case incar of None \<Rightarrow> os_path_join (calc_dir c) ''INCAR'' | Some f \<Rightarrow> f)
           = Some (concat (''INCAR created by Atomic Simulation Environment\<newline>'' # l2))"
    and r2: "list_all2 (\<lambda>k l. incar_line c k (dict_get (parameters c) k) = Inr (Some l))
               (filter ?P (h2 (nonspecial_keys c))) l2"
    by blast
  note m1 = list_all2_line_of [OF r1] and m2 = list_all2_line_of [OF r2]
  have "mset (map (line_of c) (filter ?P (h1 (nonspecial_keys c))))
        = mset (map (line_of c) (filter ?P (h2 (nonspecial_keys c))))"
    using e1 e2 by (intro mset_map_filter_perm) (simp_all add: enumerates_def)
  then have ms: "mset l1 = mset l2"
    by (simp add: m1 m2)
  from c1 c2 r1 r2 ms show "\<exists>l1 l2.
             fst (write_incar h1 incar c fs1)
               (case incar of None \<Rightarrow> os_path_join (calc_dir c) ''INCAR'' | Some f \<Rightarrow> f)
               = Some (concat (''INCAR created by Atomic Simulation Environment\<newline>'' # l1))
           \<and> fst (write_incar h2 incar c fs2)
               (case incar of None \<Rightarrow> os_path_join (calc_dir c) ''INCAR'' | Some f \<Rightarrow> f)
               = Some (concat (''INCAR created by Atomic Simulation Environment\<newline>'' # l2))
           \<and> list_all2 (\<lambda>k l. incar_line c k (dict_get (parameters c) k) = Inr (Some l))
                (filter (\<lambda>k. dict_get (parameters c) k \<noteq> VNone) (h1 (nonspecial_keys c))) l1
           \<and> list_all2 (\<lambda>k l. incar_line c k (dict_get (parameters c) k) = Inr (Some l))
                (filter (\<lambda>k. dict_get (parameters c) k \<noteq> VNone) (h2 (nonspecial_keys c))) l2
           \<and> mset l1 = mset l2"
    by blast
qed

text \<open>The theorem at a store of seven parameters, one of them \<^verbatim>\<open>None\<close> and one a float,
  first with the key set iterated in reverse and in the order of insertion, from an empty
  file system and from one that holds an older \<^verbatim>\<open>INCAR\<close>; then with the same order twice.\<close>

theorem write_incar_orders_witness:
  "(enumerates rev (nonspecial_keys calc_incar) \<and> enumerates id (nonspecial_keys calc_incar)
    \<and> snd (write_incar rev None calc_incar Map.empty) = None
    \<and> snd (write_incar id None calc_incar [''run/INCAR'' \<mapsto> ''old'']) = None
    \<and> (\<exists>l1 l2.
          fst (write_incar rev None calc_incar Map.empty) (os_path_join (calc_dir calc_incar) ''INCAR'')
            = Some (concat (''INCAR created by Atomic Simulation Environment\<newline>'' # l1))
        \<and> fst (write_incar id None calc_incar [''run/INCAR'' \<mapsto> ''old''])
              (os_path_join (calc_dir calc_incar) ''INCAR'')
            = Some (concat (''INCAR created by Atomic Simulation Environment\<newline>'' # l2))
        \<and> list_all2 (\<lambda>k l. incar_line calc_incar k (dict_get (parameters calc_incar) k) = Inr (Some l))
             (filter (\<lambda>k. dict_get (parameters calc_incar) k \<noteq> VNone) (rev (nonspecial_keys calc_incar))) l1
        \<and> list_all2 (\<lambda>k l. incar_line calc_incar k (dict_get (parameters calc_incar) k) = Inr (Some l))
             (filter (\<lambda>k. dict_get (parameters calc_incar) k \<noteq> VNone) (id (nonspecial_keys calc_incar))) l2
        \<and> mset l1 = mset l2))
   \<and> snd (write_incar rev None calc_incar Map.empty)
       = snd (write_incar rev None calc_incar [''run/INCAR'' \<mapsto> ''old''])
   \<and> fst (write_incar rev None calc_incar Map.empty) (os_path_join (calc_dir calc_incar) ''INCAR'')
       = fst (write_incar rev None calc_incar [''run/INCAR'' \<mapsto> ''old''])
           (os_path_join (calc_dir calc_incar) ''INCAR'')"
proof -
  have h1: "enumerates rev (nonspecial_keys calc_incar)"
    by (rule enumerates_rev) (simp add: nonspecial_calc_incar)
  have h2: "enumerates id (nonspecial_keys calc_incar)"
    by (simp add: enumerates_def nonspecial_calc_incar)
  have ok: "snd (write_incar rev None calc_incar Map.empty) = None"
    by code_simp
  from write_incar_orders [OF h1 h2, of None Map.empty "[''run/INCAR'' \<mapsto> ''old'']"] h1 h2 ok
  have a: "snd (write_incar id None calc_incar [''run/INCAR'' \<mapsto> ''old'']) = None
    \<and> (\<exists>l1 l2.
          fst (write_incar rev None calc_incar Map.empty) (os_path_join (calc_dir calc_incar) ''INCAR'')
            = Some (concat (''INCAR created by Atomic Simulation Environment\<newline>'' # l1))
        \<and> fst (write_incar id None calc_incar [''run/INCAR'' \<mapsto> ''old''])
              (os_path_join (calc_dir calc_incar) ''INCAR'')
            = Some (concat (''INCAR created by Atomic Simulation Environment\<newline>'' # l2))
        \<and> list_all2 (\<lambda>k l. incar_line calc_incar k (dict_get (parameters calc_incar) k) = Inr (Some l))
             (filter (\<lambda>k. dict_get (parameters calc_incar) k \<noteq> VNone) (rev (nonspecial_keys calc_incar))) l1
        \<and> list_all2 (\<lambda>k l. incar_line calc_incar k (dict_get (parameters calc_incar) k) = Inr (Some l))
             (filter (\<lambda>k. dict_get (parameters calc_incar) k \<noteq> VNone) (id (nonspecial_keys calc_incar))) l2
        \<and> mset l1 = mset l2)"
    by (simp del: id_apply)
  from write_incar_orders [OF h1 h1, of None Map.empty "[''run/INCAR'' \<mapsto> ''old'']"]
  have b: "snd (write_incar rev None calc_incar Map.empty)
       = snd (write_incar rev None calc_incar [''run/INCAR'' \<mapsto> ''old''])
     \<and> fst (write_incar rev None calc_incar Map.empty) (os_path_join (calc_dir calc_incar) ''INCAR'')
       = fst (write_incar rev None calc_incar [''run/INCAR'' \<mapsto> ''old''])
           (os_path_join (calc_dir calc_incar) ''INCAR'')"
    by simp
  from h1 h2 ok a b show ?thesis by simp
qed

text \<open>
  Claim C6 as it was stated also says that the lines appear in the store's insertion
  order. With \<^verbatim>\<open>encut\<close> inserted before \<^verbatim>\<open>prec\<close> and a key set that iterates the other way
  round, the \<^verbatim>\<open>PREC\<close> line is written first.
\<close>

theorem incar_order_counterexample:
  "enumerates rev (nonspecial_keys (calc0 [(''encut'', VInt 400), (''prec'', VStr ''Accurate'')] None))
   \<and> write_incar rev None (calc0 [(''encut'', VInt 400), (''prec'', VStr ''Accurate'')] None) Map.empty
       = ([''run/INCAR'' \<mapsto>
            ''INCAR created by Atomic Simulation Environment\<newline> PREC = Accurate\<newline> ENCUT = 400\<newline>''],
          None)"
proof -
  have u: "upper ''encut'' = ''ENCUT''" "upper ''prec'' = ''PREC''" "str_int 400 = ''400''"
    by code_simp+
  have e: "enumerates rev (nonspecial_keys (calc0 [(''encut'', VInt 400), (''prec'', VStr ''Accurate'')] None))"
    by (rule enumerates_rev) (simp add: nonspecial_keys_def calc0_def)
  show ?thesis
    using e
    by (simp add: calc0_def write_incar_def incar_dict_def nonspecial_keys_def
        incar_keys_def dict_index_def incar_line_def os_path_join_def u)
qed

text \<open>
  Claim C7, as amended. The keys written are the keys of the store that are not special,
  each once. When no such key reads \<^verbatim>\<open>RWIGS\<close> in upper case the write completes; and when
  the write completes, the file is the comment line followed by exactly one line for
  every non-special key whose value is not \<^verbatim>\<open>None\<close>. For the key \<^verbatim>\<open>rwigs\<close> the species list
  is set and the line is the one of the specification's first rule
  (\<^const>\<open>spec_rwigs_directive\<close>): the value looked up at each species of the list, in the
  order of the list, joined by spaces. For every other key the line is
  \<^const>\<open>spec_directive\<close>: one leading space, the key in upper case, \<^verbatim>\<open>.TRUE.\<close> or \<^verbatim>\<open>.FALSE.\<close>
  for a boolean, a string verbatim, another iterable joined by spaces, another scalar
  (an integer, a float) as its text.
\<close>

theorem write_incar_directives:
  assumes enum: "enumerates hord (nonspecial_keys c)"
  shows "distinct (incar_keys hord c)
     \<and> set (incar_keys hord c) = fst ` set (parameters c) - set (special_kwargs c)
     \<and> (list_all (\<lambda>k. upper k \<noteq> ''RWIGS'') (incar_keys hord c)
          \<longrightarrow> snd (write_incar hord incar c fs) = None)
     \<and> (snd (write_incar hord incar c fs) = None
          \<longrightarrow> (\<exists>lines.
                fst (write_incar hord incar c fs)
                  (case incar of None \<Rightarrow> os_path_join (calc_dir c) ''INCAR'' | Some f \<Rightarrow> f)
                  = Some (concat (''INCAR created by Atomic Simulation Environment\<newline>'' # lines))
                \<and> list_all2
                     (\<lambda>k l. if upper k = ''RWIGS''
                            then (\<exists>species. ppp_list c = Some species
                                    \<and> spec_rwigs_directive species k (dict_get (parameters c) k) = Inr l)
                            else l = spec_directive k (dict_get (parameters c) k))
                     (filter (\<lambda>k. dict_get (parameters c) k \<noteq> VNone) (incar_keys hord c))
                     lines))"
proof (intro conjI impI)
  show "distinct (incar_keys hord c)"
    using enum by (simp add: incar_keys_def enumerates_def)
  show keys: "set (incar_keys hord c) = fst ` set (parameters c) - set (special_kwargs c)"
    using enum by (simp add: incar_keys_def enumerates_def set_nonspecial_keys)
  {
    assume nr: "list_all (\<lambda>k. upper k \<noteq> ''RWIGS'') (incar_keys hord c)"
    have "\<exists>r. incar_line c k (dict_get (parameters c) k) = Inr r"
      if "k \<in> set (nonspecial_keys c)" for k
    proof (cases "dict_get (parameters c) k = VNone")
      case True
      then show ?thesis by (simp add: incar_line_None [THEN iffD2])
    next
      case False
      from that enum nr have "upper k \<noteq> ''RWIGS''"
        by (simp add: list_all_iff incar_keys_def enumerates_def)
      from incar_line_directive [OF this False] show ?thesis by simp
    qed
    then show "snd (write_incar hord incar c fs) = None"
      by (simp add: write_incar_written(1) [OF enum])
  }
  {
    assume ok: "snd (write_incar hord incar c fs) = None"
    from write_incar_written(2) [OF enum ok] obtain lines where
      content: "fst (write_incar hord incar c fs)
           (case incar of None \<Rightarrow> os_path_join (calc_dir c) ''INCAR'' | Some f \<Rightarrow> f)
           = Some (concat (''INCAR created by Atomic Simulation Environment\<newline>'' # lines))"
      and rel: "list_all2 (\<lambda>k l. incar_line c k (dict_get (parameters c) k) = Inr (Some l))
               (filter (\<lambda>k. dict_get (parameters c) k \<noteq> VNone) (hord (nonspecial_keys c))) lines"
      by blast
    from rel have "list_all2
                     (\<lambda>k l. if upper k = ''RWIGS''
                            then (\<exists>species. ppp_list c = Some species
                                    \<and> spec_rwigs_directive species k (dict_get (parameters c) k) = Inr l)
                            else l = spec_directive k (dict_get (parameters c) k))
                     (filter (\<lambda>k. dict_get (parameters c) k \<noteq> VNone) (incar_keys hord c))
                     lines"
      unfolding incar_keys_def
      by (rule list_all2_mono) (rule incar_line_spec)
    with content show "\<exists>lines.
                fst (write_incar hord incar c fs)
                  (case incar of None \<Rightarrow> os_path_join (calc_dir c) ''INCAR'' | Some f \<Rightarrow> f)
                  = Some (concat (''INCAR created by Atomic Simulation Environment\<newline>'' # lines))
                \<and> list_all2
                     (\<lambda>k l. if upper k = ''RWIGS''
                            then (\<exists>species. ppp_list c = Some species
                                    \<and> spec_rwigs_directive species k (dict_get (parameters c) k) = Inr l)
                            else l = spec_directive k (dict_get (parameters c) k))
                     (filter (\<lambda>k. dict_get (parameters c) k \<noteq> VNone) (incar_keys hord c))
                     lines"
      by blast
  }
qed

text \<open>The theorem at the store of seven parameters, none of them \<^verbatim>\<open>rwigs\<close>, and at a store
  that holds the radii of two species, with the species list set.\<close>

theorem write_incar_directives_witness:
  "(enumerates rev (nonspecial_keys calc_incar)
    \<and> distinct (incar_keys rev calc_incar)
    \<and> set (incar_keys rev calc_incar) = fst ` set (parameters calc_incar) - set (special_kwargs calc_incar)
    \<and> list_all (\<lambda>k. upper k \<noteq> ''RWIGS'') (incar_keys rev calc_incar)
    \<and> snd (write_incar rev None calc_incar Map.empty) = None
    \<and> (\<exists>lines.
        fst (write_incar rev None calc_incar Map.empty) (os_path_join (calc_dir calc_incar) ''INCAR'')
          = Some (concat (''INCAR created by Atomic Simulation Environment\<newline>'' # lines))
        \<and> list_all2
             (\<lambda>k l. if upper k = ''RWIGS''
                    then (\<exists>species. ppp_list calc_incar = Some species
                            \<and> spec_rwigs_directive species k (dict_get (parameters calc_incar) k) = Inr l)
                    else l = spec_directive k (dict_get (parameters calc_incar) k))
             (filter (\<lambda>k. dict_get (parameters calc_incar) k \<noteq> VNone) (incar_keys rev calc_incar))
             lines))
   \<and> (enumerates id (nonspecial_keys calc_rwigs)
    \<and> snd (write_incar id None calc_rwigs Map.empty) = None
    \<and> (\<exists>lines.
        fst (write_incar id None calc_rwigs Map.empty) (os_path_join (calc_dir calc_rwigs) ''INCAR'')
          = Some (concat (''INCAR created by Atomic Simulation Environment\<newline>'' # lines))
        \<and> list_all2
             (\<lambda>k l. if upper k = ''RWIGS''
                    then (\<exists>species. ppp_list calc_rwigs = Some species
                            \<and> spec_rwigs_directive species k (dict_get (parameters calc_rwigs) k) = Inr l)
                    else l = spec_directive k (dict_get (parameters calc_rwigs) k))
             (filter (\<lambda>k. dict_get (parameters calc_rwigs) k \<noteq> VNone) (incar_keys id calc_rwigs))
             lines))"
proof -
  have h: "enumerates rev (nonspecial_keys calc_incar)"
    by (rule enumerates_rev) (simp add: nonspecial_calc_incar)
  have r: "list_all (\<lambda>k. upper k \<noteq> ''RWIGS'') (incar_keys rev calc_incar)"
    by code_simp
  have h': "enumerates id (nonspecial_keys calc_rwigs)"
    by (simp add: enumerates_def nonspecial_keys_def calc_rwigs_def calc0_def)
  have ok': "snd (write_incar id None calc_rwigs Map.empty) = None"
    by code_simp
  from write_incar_directives [OF h, of None Map.empty]
       write_incar_directives [OF h', of None Map.empty] h r h' ok'
  show ?thesis by simp
qed

text \<open>
  Claim C7 as it was stated gives every non-special key one of its four renderings, the
  key \<^verbatim>\<open>rwigs\<close> too. Its value is a dictionary from species to radius, an iterable; the
  code does not join its elements but looks each species of \<^verbatim>\<open>ppp_list\<close> up in it.
\<close>

theorem incar_rwigs_counterexample:
  "write_incar id None calc_rwigs Map.empty
     = ([''run/INCAR'' \<mapsto> ''INCAR created by Atomic Simulation Environment\<newline> RWIGS = 2 1\<newline>''], None)
   \<and> spec_directive ''rwigs'' (dict_get (parameters calc_rwigs) ''rwigs'') = '' RWIGS = Fe O\<newline>''"
proof -
  have u: "upper ''rwigs'' = ''RWIGS''" "str_int 1 = ''1''" "str_int 2 = ''2''"
    by code_simp+
  show ?thesis
    by (simp add: calc_rwigs_def calc0_def write_incar_def incar_dict_def nonspecial_keys_def
        incar_keys_def dict_index_def dict_get_def incar_line_def os_path_join_def u spec_directive_def)
qed

end
